theory Spec2Isabelle
  imports Complex_Main
begin

section \<open>The recruitment crew of \<^verbatim>\<open>recruitment_assistant/agents/crew.py\<close>\<close>

text \<open>
  The embedding follows \<^verbatim>\<open>crew.py\<close> function by function. Conventions:

  \<^item> Every value has its annotated Python type: a \<^verbatim>\<open>float\<close> is a \<open>real\<close> (rounding
    and NaN are not modelled), an \<^verbatim>\<open>int\<close> is an \<open>int\<close>, a \<^verbatim>\<open>str\<close> is a
    \<open>string\<close> whose \<open>length\<close> stands for Python's \<^verbatim>\<open>len\<close>, a candidate profile is a
    record with the six keys of \<^verbatim>\<open>BASE_PROFILES\<close>.
  \<^item> Dictionaries indexed by arbitrary keys are association lists read with
    \<open>map_of\<close>.
  \<^item> Record fields carry a prefix where the dataclasses share field names
    (\<open>p_\<close> profile, \<open>s_\<close> seed, \<open>e_\<close> evaluation, \<open>r_\<close> ranked candidate).
  \<^item> Fields filled from the wall clock or from \<^verbatim>\<open>uuid4\<close> (\<^verbatim>\<open>created_at\<close>,
    \<^verbatim>\<open>sourced_at\<close>, \<^verbatim>\<open>evaluated_at\<close>, \<^verbatim>\<open>ranked_at\<close>, \<^verbatim>\<open>draft_id\<close>) are left out.
  \<^item> An exception is a value of \<open>exc\<close>; a method that may raise returns
    \<open>exc + 'a\<close>.
  \<^item> The structlog sinks are the list \<open>events\<close> of the crew record, newest event
    last; of the keyword context of an event only agent and operation are kept.
\<close>

subsection \<open>Python library functions\<close>

text \<open>
  \<^verbatim>\<open>hashlib.md5(key.encode("utf-8")).hexdigest()\<close> and the float format \<^verbatim>\<open>:.2f\<close>
  belong to the Python runtime; the model takes them as parameters.
\<close>

record pylib =
  md5_hexdigest :: "string \<Rightarrow> string"
  format_2f :: "real \<Rightarrow> string"

text \<open>
  The exceptions that well-typed input can raise, and the domain error: \<open>CrewError\<close>
  carries the agent, the operation and the exception it was raised from.
\<close>

datatype exc =
    KeyError string
  | ZeroDivisionError
  | CrewError string string exc

text \<open>
  \<^verbatim>\<open>str(exc)\<close>: the quoted key, the interpreter's text, and the message of
  \<^verbatim>\<open>CrewError(f"{agent} failed during {operation}")\<close>.
\<close>

fun exc_message :: "exc \<Rightarrow> string" where
  "exc_message (KeyError k) = [CHR 0x27] @ k @ [CHR 0x27]"
| "exc_message ZeroDivisionError = ''division by zero''"
| "exc_message (CrewError agent operation cause) = agent @ '' failed during '' @ operation"

definition exc_bind :: "exc + 'a \<Rightarrow> ('a \<Rightarrow> exc + 'b) \<Rightarrow> exc + 'b" where
  "exc_bind m f = (case m of Inl e \<Rightarrow> Inl e | Inr v \<Rightarrow> f v)"

text \<open>\<^verbatim>\<open>d[key]\<close> on a dictionary.\<close>

definition getitem :: "(string \<times> 'a) list \<Rightarrow> string \<Rightarrow> exc + 'a" where
  "getitem d k = (case map_of d k of None \<Rightarrow> Inl (KeyError k) | Some v \<Rightarrow> Inr v)"

text \<open>\<^verbatim>\<open>d.get(key, default)\<close>.\<close>

definition dict_get :: "(string \<times> 'a) list \<Rightarrow> string \<Rightarrow> 'a \<Rightarrow> 'a" where
  "dict_get d k dflt = (case map_of d k of None \<Rightarrow> dflt | Some v \<Rightarrow> v)"

text \<open>\<^verbatim>\<open>xs[:k]\<close>: a negative \<open>k\<close> counts from the end.\<close>

definition slice_to :: "'a list \<Rightarrow> int \<Rightarrow> 'a list" where
  "slice_to xs k =
     (if 0 \<le> k then take (nat k) xs else take (nat (int (length xs) + k)) xs)"

text \<open>\<^verbatim>\<open>a / b\<close> on two \<^verbatim>\<open>int\<close>s.\<close>

definition truediv :: "int \<Rightarrow> int \<Rightarrow> exc + real" where
  "truediv a b = (if b = 0 then Inl ZeroDivisionError else Inr (real_of_int a / real_of_int b))"

definition upper_char :: "char \<Rightarrow> char" where
  "upper_char c =
     (let n = (of_char c :: nat) in if 97 \<le> n \<and> n \<le> 122 then char_of (n - 32) else c)"

definition lower_char :: "char \<Rightarrow> char" where
  "lower_char c =
     (let n = (of_char c :: nat) in if 65 \<le> n \<and> n \<le> 90 then char_of (n + 32) else c)"

text \<open>
  \<^verbatim>\<open>str.upper\<close> and \<^verbatim>\<open>str.lower\<close> on ASCII letters; a cased character outside ASCII,
  which Python would map too, is left as it is.
\<close>

definition upper :: "string \<Rightarrow> string" where
  "upper s = map upper_char s"

definition lower :: "string \<Rightarrow> string" where
  "lower s = map lower_char s"

text \<open>\<^verbatim>\<open>s.replace(' ', '-')\<close>.\<close>

definition replace_space :: "string \<Rightarrow> string" where
  "replace_space s = map (\<lambda>c. if c = CHR '' '' then CHR ''-'' else c) s"

text \<open>\<^verbatim>\<open>html.escape(value)\<close> with its default \<^verbatim>\<open>quote=True\<close>.\<close>

definition escape_char :: "char \<Rightarrow> string" where
  "escape_char c =
     (if c = CHR ''&'' then ''&amp;''
      else if c = CHR ''<'' then ''&lt;''
      else if c = CHR ''>'' then ''&gt;''
      else if c = CHR 0x22 then ''&quot;''
      else if c = CHR 0x27 then ''&#x27;''
      else [c])"

definition html_escape :: "string \<Rightarrow> string" where
  "html_escape s = concat (map escape_char s)"

text \<open>\<^verbatim>\<open>str(n)\<close> for a natural number.\<close>

fun str_nat :: "nat \<Rightarrow> string" where
  "str_nat n =
     (if n < 10 then [char_of (48 + n)]
      else str_nat (n div 10) @ [char_of (48 + n mod 10)])"

declare str_nat.simps [simp del]

subsection \<open>Data model\<close>

record JobDescriptionModel =
  title :: string
  content :: string
  classification :: string

record CandidateSeed =
  s_candidate_id :: string
  s_name :: string
  s_role :: string
  s_score :: real
  s_rationale :: string
  s_tags :: "string list"
  s_data_sources :: "string list"

record EvaluationResult =
  e_candidate_id :: string
  e_candidate_name :: string
  e_role :: string
  e_score :: real
  e_rationale :: string
  e_bias_flags :: "string list"
  e_comments :: string
  e_tags :: "string list"
  e_profile_url :: string

record RankedCandidate =
  r_candidate_id :: string
  r_name :: string
  r_role :: string
  r_final_score :: real
  r_rationale :: string
  r_tags :: "string list"
  r_bias_flags :: "string list"
  r_rank_label :: string
  r_recommendation :: string
  r_profile_url :: string
  r_notes :: "string option"

record OutreachTemplate =
  tone :: string
  cta :: string
  compliance_notes :: string
  eu_ai_statement :: string

definition OutreachTemplate_default :: OutreachTemplate where
  "OutreachTemplate_default =
     \<lparr>tone = ''professional'',
      cta = ''Let'' @ [CHR 0x27] @ ''s schedule a time to chat'',
      compliance_notes = ''GDPR-compliant; transparent opt-out included.'',
      eu_ai_statement =
        ''High-risk HR workflow per EU AI Act; human oversight and record keeping enforced.''\<rparr>"

record OutreachDraft =
  d_campaign_id :: string
  d_candidate_id :: string
  message :: string
  template :: OutreachTemplate

record RankingPolicy =
  policy_name :: string
  diversity_bonus :: real
  bias_tolerance :: real
  respect_bias_flags :: bool

definition RankingPolicy_default :: RankingPolicy where
  "RankingPolicy_default =
     \<lparr>policy_name = ''balanced'', diversity_bonus = 0.05, bias_tolerance = 0.7,
      respect_bias_flags = True\<rparr>"

record CompliancePolicy =
  gdpr_note :: string
  eu_ai_act_category :: string
  retention_days :: int
  logging_level :: string

definition CompliancePolicy_default :: CompliancePolicy where
  "CompliancePolicy_default =
     \<lparr>gdpr_note = ''Personal data processed only for recruitment; subject rights respected.'',
      eu_ai_act_category = ''High-Risk HR'',
      retention_days = 30,
      logging_level = ''INFO''\<rparr>"

record RiskAssessment =
  risk_score :: real
  risk_bias_flags :: int
  risk_level :: string

record profile =
  p_name :: string
  p_role :: string
  p_score :: real
  p_tags :: "string list"
  p_data_sources :: "string list"
  p_profile_url :: string

definition BASE_PROFILES :: "profile list" where
  "BASE_PROFILES =
     [\<lparr>p_name = ''Alex Dev'', p_role = ''Backend Engineer'', p_score = 0.60,
       p_tags = [''Data Deficient'', ''Manual Review Required''],
       p_data_sources = [''Serper.dev'', ''GitHub''],
       p_profile_url = ''https://talent.example.com/alex-dev''\<rparr>,
      \<lparr>p_name = ''Marina Byte'', p_role = ''Full Stack Engineer'', p_score = 0.72,
       p_tags = [''High Confidence''],
       p_data_sources = [''Serper.dev'', ''Portfolio''],
       p_profile_url = ''https://talent.example.com/marina-byte''\<rparr>,
      \<lparr>p_name = ''Kai Ops'', p_role = ''DevOps Engineer'', p_score = 0.68,
       p_tags = [''Manual Review Required''],
       p_data_sources = [''GitHub'', ''Browserless.io''],
       p_profile_url = ''https://talent.example.com/kai-ops''\<rparr>,
      \<lparr>p_name = ''Nia Vector'', p_role = ''Platform Architect'', p_score = 0.64,
       p_tags = [''Leadership Potential''],
       p_data_sources = [''LinkedIn'', ''Public Portfolio''],
       p_profile_url = ''https://talent.example.com/nia-vector''\<rparr>]"

subsection \<open>The crew and its log\<close>

datatype log_level = INFO | WARNING | ERROR

text \<open>An event: level, event name, and the agent and operation when the tracer emits it.\<close>

type_synonym log_event = "log_level \<times> string \<times> string list"

datatype jd_source = JDModel JobDescriptionModel | JDDict "(string \<times> string) list"

text \<open>
  The crew with its four agents flattened into one record: \<open>candidate_pool\<close> is
  \<^verbatim>\<open>researcher._candidate_pool\<close>, \<open>bias_thresholds\<close> is
  \<^verbatim>\<open>evaluator._bias_thresholds\<close>, \<open>active_policy\<close> is \<^verbatim>\<open>recommender.active_policy\<close>.
\<close>

record crew =
  policy :: RankingPolicy
  compliance :: CompliancePolicy
  candidate_pool :: "profile list"
  bias_thresholds :: "(string \<times> real) list"
  active_policy :: RankingPolicy
  latest_candidates :: "RankedCandidate list"
  latest_evaluations :: "EvaluationResult list"
  risk_history :: "RiskAssessment list"
  job_description :: JobDescriptionModel
  jd_data :: "(string \<times> string) list"
  events :: "log_event list"

definition emit :: "log_level \<Rightarrow> string \<Rightarrow> string list \<Rightarrow> crew \<Rightarrow> crew" where
  "emit lvl event ctx c = c\<lparr>events := events c @ [(lvl, event, ctx)]\<rparr>"

text \<open>
  \<^verbatim>\<open>AgentTracer.trace\<close>: the start event, the body, on an exception the failure event
  and the \<^verbatim>\<open>CrewError\<close> raised from it, and in every case the end event.
\<close>

definition trace ::
  "string \<Rightarrow> string \<Rightarrow> (crew \<Rightarrow> (exc + 'a) \<times> crew) \<Rightarrow> crew \<Rightarrow> (exc + 'a) \<times> crew" where
  "trace agent_name operation body c =
     (let c1 = emit INFO ''agent_operation_start'' [agent_name, operation] c;
          (res, c2) = body c1
      in case res of
           Inl e \<Rightarrow>
             (let c3 = emit ERROR ''agent_operation_failed'' [agent_name, operation] c2
              in (Inl (CrewError agent_name operation e),
                  emit INFO ''agent_operation_end'' [agent_name, operation] c3))
         | Inr v \<Rightarrow> (Inr v, emit INFO ''agent_operation_end'' [agent_name, operation] c2))"

subsection \<open>Research stage\<close>

definition stable_candidate_id :: "pylib \<Rightarrow> string \<Rightarrow> string \<Rightarrow> string" where
  "stable_candidate_id L name job_title =
     (let key = name @ ''|'' @ job_title;
          digest = take 8 (md5_hexdigest L key)
      in ''CAN-'' @ upper digest)"

text \<open>One pass of the loop of \<^verbatim>\<open>ResearcherAgent.research\<close>.\<close>

definition research_seed :: "pylib \<Rightarrow> JobDescriptionModel \<Rightarrow> real \<Rightarrow> profile \<Rightarrow> CandidateSeed" where
  "research_seed L jd content_bonus p =
     \<lparr>s_candidate_id = stable_candidate_id L (p_name p) (title jd),
      s_name = p_name p,
      s_role = p_role p,
      s_score = min 0.95 (p_score p + content_bonus),
      s_rationale =
        p_name p @ '' shows a '' @ p_role p @ '' signal that aligns with '' @ title jd @ ''.'',
      s_tags = p_tags p,
      s_data_sources = p_data_sources p\<rparr>"

fun research_loop ::
  "pylib \<Rightarrow> JobDescriptionModel \<Rightarrow> real \<Rightarrow> profile list \<Rightarrow> CandidateSeed list" where
  "research_loop L jd content_bonus [] = []"
| "research_loop L jd content_bonus (p # ps) =
     research_seed L jd content_bonus p # research_loop L jd content_bonus ps"

definition research ::
  "pylib \<Rightarrow> JobDescriptionModel \<Rightarrow> int \<Rightarrow> crew \<Rightarrow> (exc + CandidateSeed list) \<times> crew" where
  "research L jd limit =
     trace ''researcher'' ''research''
       (\<lambda>c. let content_bonus = real (length (content jd)) / 400
            in (Inr (research_loop L jd content_bonus (slice_to (candidate_pool c) limit)), c))"

text \<open>
  The pool is annotated \<^verbatim>\<open>Sequence[Dict[str, Any]]\<close>: a dictionary may lack a key, and
  \<^verbatim>\<open>profile["name"]\<close> then raises \<^verbatim>\<open>KeyError\<close>. \<open>profile_dict\<close> is a profile whose
  keys may be absent (present values have the types of \<^verbatim>\<open>BASE_PROFILES\<close>), and
  \<open>research_dicts\<close> is \<^verbatim>\<open>ResearcherAgent.research\<close> of a researcher holding such a
  pool. The keys are read in the order of the source: \<^verbatim>\<open>name\<close>, \<^verbatim>\<open>score\<close>, \<^verbatim>\<open>role\<close>,
  \<^verbatim>\<open>tags\<close>, \<^verbatim>\<open>data_sources\<close>.
\<close>

record profile_dict =
  k_name :: "string option"
  k_role :: "string option"
  k_score :: "real option"
  k_tags :: "string list option"
  k_data_sources :: "string list option"
  k_profile_url :: "string option"

definition getkey :: "string \<Rightarrow> 'a option \<Rightarrow> exc + 'a" where
  "getkey k v = (case v of None \<Rightarrow> Inl (KeyError k) | Some x \<Rightarrow> Inr x)"

definition dict_of :: "profile \<Rightarrow> profile_dict" where
  "dict_of p =
     \<lparr>k_name = Some (p_name p), k_role = Some (p_role p), k_score = Some (p_score p),
      k_tags = Some (p_tags p), k_data_sources = Some (p_data_sources p),
      k_profile_url = Some (p_profile_url p)\<rparr>"

definition research_seed_dict ::
  "pylib \<Rightarrow> JobDescriptionModel \<Rightarrow> real \<Rightarrow> profile_dict \<Rightarrow> exc + CandidateSeed" where
  "research_seed_dict L jd content_bonus d =
     exc_bind (getkey ''name'' (k_name d)) (\<lambda>name.
     exc_bind (getkey ''score'' (k_score d)) (\<lambda>score.
     exc_bind (getkey ''role'' (k_role d)) (\<lambda>role.
     exc_bind (getkey ''tags'' (k_tags d)) (\<lambda>tags.
     exc_bind (getkey ''data_sources'' (k_data_sources d)) (\<lambda>data_sources.
       Inr \<lparr>s_candidate_id = stable_candidate_id L name (title jd),
            s_name = name,
            s_role = role,
            s_score = min 0.95 (score + content_bonus),
            s_rationale =
              name @ '' shows a '' @ role @ '' signal that aligns with '' @ title jd @ ''.'',
            s_tags = tags,
            s_data_sources = data_sources\<rparr>)))))"

fun research_loop_dicts ::
  "pylib \<Rightarrow> JobDescriptionModel \<Rightarrow> real \<Rightarrow> profile_dict list \<Rightarrow> exc + CandidateSeed list" where
  "research_loop_dicts L jd content_bonus [] = Inr []"
| "research_loop_dicts L jd content_bonus (d # ds) =
     exc_bind (research_seed_dict L jd content_bonus d) (\<lambda>seed.
       exc_bind (research_loop_dicts L jd content_bonus ds) (\<lambda>seeds. Inr (seed # seeds)))"

definition research_dicts ::
  "pylib \<Rightarrow> profile_dict list \<Rightarrow> JobDescriptionModel \<Rightarrow> int \<Rightarrow> crew
     \<Rightarrow> (exc + CandidateSeed list) \<times> crew" where
  "research_dicts L pool jd limit =
     trace ''researcher'' ''research''
       (\<lambda>c. let content_bonus = real (length (content jd)) / 400
            in (research_loop_dicts L jd content_bonus (slice_to pool limit), c))"

subsection \<open>Evaluation stage\<close>

text \<open>
  \<^verbatim>\<open>_derive_bias_flags\<close>. The default argument of \<^verbatim>\<open>.get\<close>, the lookup
  \<^verbatim>\<open>self._bias_thresholds["default"]\<close>, is evaluated on every call and raises
  \<^verbatim>\<open>KeyError\<close> when the key is absent. The comparison with the threshold is exact
  over the reals; where a binary64 sum falls just below the exact one, the code's
  \<^verbatim>\<open>Bias Warning\<close> can differ at a score equal to the threshold.
\<close>

definition derive_bias_flags :: "(string \<times> real) list \<Rightarrow> CandidateSeed \<Rightarrow> exc + string list" where
  "derive_bias_flags thresholds seed =
     (let flags1 = (if ''Data Deficient'' \<in> set (s_tags seed) then [''Data Deficient''] else []);
          flags2 = flags1 @
            (if ''Manual Review Required'' \<in> set (s_tags seed)
             then [''Manual Review Required''] else [])
      in exc_bind (getitem thresholds ''default'') (\<lambda>dflt.
           let threshold = dict_get thresholds (s_role seed) dflt
           in Inr (flags2 @ (if s_score seed < threshold then [''Bias Warning''] else []))))"

definition evaluate_seed :: "(string \<times> real) list \<Rightarrow> CandidateSeed \<Rightarrow> exc + EvaluationResult" where
  "evaluate_seed thresholds seed =
     exc_bind (derive_bias_flags thresholds seed) (\<lambda>bias_flags.
       Inr \<lparr>e_candidate_id = s_candidate_id seed,
            e_candidate_name = s_name seed,
            e_role = s_role seed,
            e_score = min 1.0 (s_score seed + 0.1),
            e_rationale = s_rationale seed,
            e_bias_flags = bias_flags,
            e_comments =
              ''Evaluated '' @ s_name seed @ ''; '' @ str_nat (length (s_tags seed))
                @ '' tag(s) observed.'',
            e_tags = s_tags seed,
            e_profile_url =
              ''https://talent.example.com/'' @ replace_space (lower (s_name seed))\<rparr>)"

text \<open>The loop of \<^verbatim>\<open>evaluate\<close>: the first seed that raises ends it.\<close>

fun evaluate_loop :: "(string \<times> real) list \<Rightarrow> CandidateSeed list \<Rightarrow> exc + EvaluationResult list" where
  "evaluate_loop thresholds [] = Inr []"
| "evaluate_loop thresholds (seed # seeds) =
     exc_bind (evaluate_seed thresholds seed) (\<lambda>r.
       exc_bind (evaluate_loop thresholds seeds) (\<lambda>rs. Inr (r # rs)))"

definition evaluate :: "CandidateSeed list \<Rightarrow> crew \<Rightarrow> (exc + EvaluationResult list) \<times> crew" where
  "evaluate seeds =
     trace ''evaluator'' ''evaluate'' (\<lambda>c. (evaluate_loop (bias_thresholds c) seeds, c))"

subsection \<open>Ranking stage\<close>

text \<open>
  \<^verbatim>\<open>sorted(evaluations, key=lambda entry: entry.score, reverse=True)\<close>: Python's sort
  is stable, also under \<^verbatim>\<open>reverse=True\<close>; it is the stable insertion sort on the
  negated key.
\<close>

definition sorted_evaluations :: "EvaluationResult list \<Rightarrow> EvaluationResult list" where
  "sorted_evaluations evaluations = sort_key (\<lambda>entry. - e_score entry) evaluations"

definition rank_candidate :: "pylib \<Rightarrow> RankingPolicy \<Rightarrow> nat \<Rightarrow> EvaluationResult \<Rightarrow> RankedCandidate" where
  "rank_candidate L pol position evaluation =
     (let diversity_boost =
            (if list_ex (\<lambda>tag. tag \<in> set [''Manual Review Required'', ''Data Deficient''])
                  (e_tags evaluation)
             then diversity_bonus pol else 0.0);
          final_score = min 1.0 (e_score evaluation + diversity_boost)
      in \<lparr>r_candidate_id = e_candidate_id evaluation,
          r_name = e_candidate_name evaluation,
          r_role = e_role evaluation,
          r_final_score = final_score,
          r_rationale = e_rationale evaluation,
          r_tags = e_tags evaluation,
          r_bias_flags = e_bias_flags evaluation,
          r_rank_label = ''Tier '' @ str_nat (1 + (position - 1) div 2),
          r_recommendation =
            ''Rank '' @ str_nat position @ '': '' @ e_candidate_name evaluation
              @ '' ('' @ format_2f L final_score @ '')'',
          r_profile_url = e_profile_url evaluation,
          r_notes = (if e_bias_flags evaluation \<noteq> [] then Some ''Manual review advised.'' else None)\<rparr>)"

text \<open>The loop over \<^verbatim>\<open>enumerate(sorted_evaluations, start=1)\<close>.\<close>

fun rank_loop :: "pylib \<Rightarrow> RankingPolicy \<Rightarrow> nat \<Rightarrow> EvaluationResult list \<Rightarrow> RankedCandidate list" where
  "rank_loop L pol position [] = []"
| "rank_loop L pol position (evaluation # rest) =
     rank_candidate L pol position evaluation # rank_loop L pol (Suc position) rest"

definition apply_policy :: "RankingPolicy \<Rightarrow> crew \<Rightarrow> crew" where
  "apply_policy pol c = c\<lparr>active_policy := pol\<rparr>"

definition set_policy :: "RankingPolicy \<Rightarrow> crew \<Rightarrow> crew" where
  "set_policy pol c = apply_policy pol c"

definition recommend ::
  "pylib \<Rightarrow> EvaluationResult list \<Rightarrow> RankingPolicy \<Rightarrow> crew \<Rightarrow> (exc + RankedCandidate list) \<times> crew" where
  "recommend L evaluations pol c =
     trace ''recommender'' ''recommend''
       (\<lambda>c'. (Inr (rank_loop L pol 1 (sorted_evaluations evaluations)), c'))
       (apply_policy pol c)"

subsection \<open>Risk assessment\<close>

definition flag_count :: "EvaluationResult list \<Rightarrow> int" where
  "flag_count evaluations = (\<Sum>evaluation \<leftarrow> evaluations. int (length (e_bias_flags evaluation)))"

definition assess_risk :: "EvaluationResult list \<Rightarrow> exc + RiskAssessment" where
  "assess_risk evaluations =
     exc_bind (truediv (flag_count evaluations) (max 1 (int (length evaluations)))) (\<lambda>q.
       let score = min 1.0 q;
           level = (if score > 0.3 then ''elevated'' else ''standard'')
       in Inr \<lparr>risk_score = score, risk_bias_flags = flag_count evaluations, risk_level = level\<rparr>)"

subsection \<open>Outreach drafting\<close>

definition draft ::
  "string \<Rightarrow> RankedCandidate \<Rightarrow> OutreachTemplate \<Rightarrow> crew \<Rightarrow> (exc + OutreachDraft) \<times> crew" where
  "draft campaign_id candidate tmpl =
     trace ''writer'' ''draft''
       (\<lambda>c. let safe_name = html_escape (r_name candidate);
                safe_role = html_escape (r_role candidate);
                safe_rationale = html_escape (lower (r_rationale candidate));
                safe_cta = html_escape (cta tmpl);
                safe_compliance = html_escape (compliance_notes tmpl);
                safe_eu_statement = html_escape (eu_ai_statement tmpl);
                msg = ''Hi '' @ safe_name @ '','' @ [CHR 0x0A, CHR 0x0A]
                  @ ''I saw your work as a '' @ safe_role @ '' and the way you ''
                  @ safe_rationale @ [CHR 0x0A]
                  @ safe_compliance @ '' '' @ safe_eu_statement @ [CHR 0x0A]
                  @ safe_cta @ ''.'' @ [CHR 0x0A, CHR 0x0A]
                  @ ''Best,'' @ [CHR 0x0A] @ ''Recruitment Assistant Crew''
            in (Inr \<lparr>d_campaign_id = campaign_id,
                     d_candidate_id = r_candidate_id candidate,
                     message = msg,
                     template = tmpl\<rparr>, c))"

subsection \<open>The orchestrator\<close>

definition default_job_description :: JobDescriptionModel where
  "default_job_description =
     \<lparr>title = ''Talent Search'', content = ''No JD provided.'', classification = ''Tier-2''\<rparr>"

definition normalize_job_description :: "jd_source option \<Rightarrow> JobDescriptionModel" where
  "normalize_job_description source =
     (case source of
        Some (JDModel jd) \<Rightarrow> jd
      | Some (JDDict d) \<Rightarrow>
          \<lparr>title = dict_get d ''title'' ''Talent Search'',
           content = dict_get d ''content'' ''No JD provided.'',
           classification = ''Tier-2''\<rparr>
      | None \<Rightarrow> default_job_description)"

text \<open>
  \<^verbatim>\<open>RecruitmentCrew.__init__\<close>. \<^verbatim>\<open>x or default\<close> replaces \<^verbatim>\<open>None\<close> and an empty
  sequence or dictionary alike; a dataclass instance is always truthy.
\<close>

definition RecruitmentCrew_init ::
  "jd_source option \<Rightarrow> RankingPolicy option \<Rightarrow> CompliancePolicy option \<Rightarrow> profile list option
     \<Rightarrow> (string \<times> real) list option \<Rightarrow> crew" where
  "RecruitmentCrew_init jd_src pol compliance_policy pool evaluator_bias_thresholds =
     (let pol' = (case pol of None \<Rightarrow> RankingPolicy_default | Some p \<Rightarrow> p);
          jd = normalize_job_description jd_src
      in set_policy pol'
          \<lparr>policy = pol',
           compliance =
             (case compliance_policy of None \<Rightarrow> CompliancePolicy_default | Some cp \<Rightarrow> cp),
           candidate_pool =
             (case pool of None \<Rightarrow> BASE_PROFILES | Some ps \<Rightarrow> if ps = [] then BASE_PROFILES else ps),
           bias_thresholds =
             (case evaluator_bias_thresholds of
                None \<Rightarrow> [(''default'', 0.65)]
              | Some th \<Rightarrow> if th = [] then [(''default'', 0.65)] else th),
           active_policy = RankingPolicy_default,
           latest_candidates = [],
           latest_evaluations = [],
           risk_history = [],
           job_description = jd,
           jd_data =
             (case jd_src of
                Some (JDDict d) \<Rightarrow> d
              | _ \<Rightarrow> [(''title'', title jd), (''content'', content jd)]),
           events = []\<rparr>)"

definition record_state ::
  "RankedCandidate list \<Rightarrow> EvaluationResult list \<Rightarrow> RiskAssessment \<Rightarrow> crew \<Rightarrow> crew" where
  "record_state candidates evaluations risk c =
     c\<lparr>latest_candidates := candidates,
       latest_evaluations := evaluations,
       risk_history := risk_history c @ [risk]\<rparr>"

text \<open>Sequencing of two steps that may raise, the state threaded through.\<close>

definition then_do ::
  "(crew \<Rightarrow> (exc + 'a) \<times> crew) \<Rightarrow> ('a \<Rightarrow> crew \<Rightarrow> (exc + 'b) \<times> crew) \<Rightarrow> crew \<Rightarrow> (exc + 'b) \<times> crew" where
  "then_do m f c = (case m c of (Inl e, c') \<Rightarrow> (Inl e, c') | (Inr v, c') \<Rightarrow> f v c')"

text \<open>
  \<^verbatim>\<open>run_campaign\<close>, written over the objects it calls: \<^verbatim>\<open>self.researcher.research\<close>,
  \<^verbatim>\<open>self.evaluator.evaluate\<close>, \<^verbatim>\<open>self.recommender.recommend\<close> and
  \<^verbatim>\<open>self.assess_risk\<close>. The crew's own run is the instance at its own agents.
\<close>

definition run_campaign_with ::
  "(JobDescriptionModel \<Rightarrow> int \<Rightarrow> crew \<Rightarrow> (exc + CandidateSeed list) \<times> crew)
     \<Rightarrow> (CandidateSeed list \<Rightarrow> crew \<Rightarrow> (exc + EvaluationResult list) \<times> crew)
     \<Rightarrow> (EvaluationResult list \<Rightarrow> RankingPolicy \<Rightarrow> crew \<Rightarrow> (exc + RankedCandidate list) \<times> crew)
     \<Rightarrow> (EvaluationResult list \<Rightarrow> exc + RiskAssessment)
     \<Rightarrow> JobDescriptionModel option \<Rightarrow> int \<Rightarrow> crew
     \<Rightarrow> (exc + RankedCandidate list \<times> EvaluationResult list) \<times> crew" where
  "run_campaign_with researcher evaluator recommender risk_of jd limit c =
     (let payload = (case jd of Some j \<Rightarrow> j | None \<Rightarrow> job_description c);
          c0 = emit INFO ''crew_run_campaign_start'' [] c
      in trace ''crew'' ''run_campaign''
           (then_do (researcher payload limit) (\<lambda>seeds.
            then_do (evaluator seeds) (\<lambda>evaluations.
            then_do (\<lambda>c'. recommender evaluations (policy c') c') (\<lambda>ranked.
            then_do (\<lambda>c'. (risk_of evaluations, c')) (\<lambda>risk c'.
              (Inr (ranked, evaluations),
               emit INFO ''crew_run_campaign_complete'' []
                 (record_state ranked evaluations risk c')))))))
           c0)"

definition run_campaign ::
  "pylib \<Rightarrow> JobDescriptionModel option \<Rightarrow> int \<Rightarrow> crew
     \<Rightarrow> (exc + RankedCandidate list \<times> EvaluationResult list) \<times> crew" where
  "run_campaign L jd limit c =
     run_campaign_with (research L) evaluate (recommend L) assess_risk jd limit c"

text \<open>The three fields that \<^verbatim>\<open>_record_state\<close> writes.\<close>

definition snapshots ::
  "crew \<Rightarrow> RankedCandidate list \<times> EvaluationResult list \<times> RiskAssessment list" where
  "snapshots c = (latest_candidates c, latest_evaluations c, risk_history c)"

text \<open>
  \<^verbatim>\<open>rerank\<close>. \<^verbatim>\<open>evaluations or self.latest_evaluations\<close> falls back to the snapshot
  for \<^verbatim>\<open>None\<close> and for the empty list alike.
\<close>

definition rerank ::
  "pylib \<Rightarrow> EvaluationResult list option \<Rightarrow> RankingPolicy option \<Rightarrow> crew
     \<Rightarrow> (exc + RankedCandidate list) \<times> crew" where
  "rerank L evaluations pol c =
     (let source =
            (case evaluations of
               None \<Rightarrow> latest_evaluations c
             | Some evs \<Rightarrow> if evs = [] then latest_evaluations c else evs)
      in if source = [] then (Inr [], emit WARNING ''rerank_without_evaluations'' [] c)
         else
           let active = (case pol of None \<Rightarrow> policy c | Some p \<Rightarrow> p);
               c1 = set_policy active (c\<lparr>policy := active\<rparr>)
           in then_do (recommend L source active) (\<lambda>ranked.
              then_do (\<lambda>c'. (assess_risk source, c')) (\<lambda>risk c'.
                (Inr ranked, record_state ranked source risk c'))) c1)"

text \<open>The list comprehension of \<^verbatim>\<open>generate_outreach\<close>.\<close>

fun draft_all ::
  "string \<Rightarrow> OutreachTemplate \<Rightarrow> RankedCandidate list \<Rightarrow> crew \<Rightarrow> (exc + OutreachDraft list) \<times> crew" where
  "draft_all campaign_id tmpl [] c = (Inr [], c)"
| "draft_all campaign_id tmpl (candidate # rest) c =
     then_do (draft campaign_id candidate tmpl) (\<lambda>d.
       then_do (draft_all campaign_id tmpl rest) (\<lambda>ds c'. (Inr (d # ds), c'))) c"

definition generate_outreach ::
  "string \<Rightarrow> RankedCandidate list option \<Rightarrow> OutreachTemplate option \<Rightarrow> crew
     \<Rightarrow> (exc + OutreachDraft list) \<times> crew" where
  "generate_outreach campaign_id candidates tmpl c =
     (let roster =
            (case candidates of
               None \<Rightarrow> latest_candidates c
             | Some cs \<Rightarrow> if cs = [] then latest_candidates c else cs)
      in if roster = [] then (Inr [], emit WARNING ''generate_outreach_no_candidates'' [] c)
         else
           let tmpl' = (case tmpl of None \<Rightarrow> OutreachTemplate_default | Some t \<Rightarrow> t)
           in draft_all campaign_id tmpl' roster c)"

subsection \<open>Concrete inputs\<close>

text \<open>
  A stand-in runtime for evaluating the pipeline on concrete inputs: its hash returns the
  key itself and its format a fixed string. Every theorem below holds for any runtime;
  the concrete evaluations do not depend on what the two functions return.
\<close>

definition stub_pylib :: pylib where
  "stub_pylib = \<lparr>md5_hexdigest = (\<lambda>key. key), format_2f = (\<lambda>x. ''0.00'')\<rparr>"

text \<open>The crew built by \<^verbatim>\<open>RecruitmentCrew()\<close>.\<close>

definition default_crew :: crew where
  "default_crew = RecruitmentCrew_init None None None None None"

text \<open>The fixture \<^verbatim>\<open>job_description\<close> of \<^verbatim>\<open>tests/test_agents.py\<close>.\<close>

definition fixture_job_description :: JobDescriptionModel where
  "fixture_job_description =
     \<lparr>title = ''Senior Python Engineer'', content = ''Build scalable APIs'',
      classification = ''Tier-2''\<rparr>"

text \<open>An evaluation carrying two bias flags.\<close>

definition flagged_evaluation :: EvaluationResult where
  "flagged_evaluation =
     \<lparr>e_candidate_id = ''CAN-0A1B2C3D'', e_candidate_name = ''Alex Dev'',
      e_role = ''Backend Engineer'', e_score = 0.5,
      e_rationale = ''Alex Dev shows a Backend Engineer signal that aligns with Talent Search.'',
      e_bias_flags = [''Data Deficient'', ''Manual Review Required''],
      e_comments = ''Evaluated Alex Dev; 2 tag(s) observed.'',
      e_tags = [''Data Deficient'', ''Manual Review Required''],
      e_profile_url = ''https://talent.example.com/alex-dev''\<rparr>"

text \<open>
  Two evaluations with the scores, tags and bias flags that the pipeline gives Marina
  Byte and Kai Ops under \<open>fixture_job_description\<close>: 0.72 + 19/400 + 0.1 and
  0.68 + 19/400 + 0.1.
\<close>

definition marina_evaluation :: EvaluationResult where
  "marina_evaluation =
     \<lparr>e_candidate_id = ''CAN-4F1D2A9C'', e_candidate_name = ''Marina Byte'',
      e_role = ''Full Stack Engineer'', e_score = 0.8675,
      e_rationale =
        ''Marina Byte shows a Full Stack Engineer signal that aligns with Senior Python Engineer.'',
      e_bias_flags = [],
      e_comments = ''Evaluated Marina Byte; 1 tag(s) observed.'',
      e_tags = [''High Confidence''],
      e_profile_url = ''https://talent.example.com/marina-byte''\<rparr>"

definition kai_evaluation :: EvaluationResult where
  "kai_evaluation =
     \<lparr>e_candidate_id = ''CAN-7B3E5D10'', e_candidate_name = ''Kai Ops'',
      e_role = ''DevOps Engineer'', e_score = 0.8275,
      e_rationale =
        ''Kai Ops shows a DevOps Engineer signal that aligns with Senior Python Engineer.'',
      e_bias_flags = [''Manual Review Required''],
      e_comments = ''Evaluated Kai Ops; 1 tag(s) observed.'',
      e_tags = [''Manual Review Required''],
      e_profile_url = ''https://talent.example.com/kai-ops''\<rparr>"

text \<open>A policy with a negative diversity bonus, and an evaluation scored above 1.\<close>

definition penalty_policy :: RankingPolicy where
  "penalty_policy = RankingPolicy_default\<lparr>policy_name := ''penalty'', diversity_bonus := - 0.5\<rparr>"

definition overscored_evaluation :: EvaluationResult where
  "overscored_evaluation = marina_evaluation\<lparr>e_score := 2\<rparr>"



text \<open>A crew that holds an evaluation snapshot, as it does after a campaign run.\<close>

definition crew_with_snapshot :: crew where
  "crew_with_snapshot = default_crew\<lparr>latest_evaluations := [marina_evaluation, kai_evaluation]\<rparr>"

text \<open>
  A crew that has run before: it holds the ranking, the evaluations and the risk
  assessment of Marina Byte and Kai Ops.
\<close>

definition crew_with_history :: crew where
  "crew_with_history =
     default_crew
       \<lparr>latest_candidates :=
          rank_loop stub_pylib RankingPolicy_default 1 [marina_evaluation, kai_evaluation],
        latest_evaluations := [marina_evaluation, kai_evaluation],
        risk_history := [\<lparr>risk_score = 0.5, risk_bias_flags = 1, risk_level = ''elevated''\<rparr>]\<rparr>"

text \<open>A pool whose second dictionary has no key \<^verbatim>\<open>role\<close>.\<close>

definition incomplete_pool :: "profile_dict list" where
  "incomplete_pool =
     [dict_of (hd BASE_PROFILES),
      \<lparr>k_name = Some ''Rui Net'', k_role = None, k_score = Some 0.7,
       k_tags = Some [''High Confidence''], k_data_sources = Some [''GitHub''],
       k_profile_url = None\<rparr>]"

text \<open>A risk assessment overridden to raise, standing for a failure in the last step.\<close>

definition raising_risk :: "EvaluationResult list \<Rightarrow> exc + RiskAssessment" where
  "raising_risk evaluations = Inl ZeroDivisionError"

section \<open>Properties\<close>

subsection \<open>What each traced stage returns\<close>

lemma research_eq:
  "research L jd limit c =
     (Inr (research_loop L jd (real (length (content jd)) / 400)
             (slice_to (candidate_pool c) limit)),
      c\<lparr>events := events c @
           [(INFO, ''agent_operation_start'', [''researcher'', ''research'']),
            (INFO, ''agent_operation_end'', [''researcher'', ''research''])]\<rparr>)"
  by (simp add: research_def trace_def emit_def Let_def)

lemma evaluate_eq:
  "evaluate seeds c =
     (case evaluate_loop (bias_thresholds c) seeds of
        Inl e \<Rightarrow>
          (Inl (CrewError ''evaluator'' ''evaluate'' e),
           c\<lparr>events := events c @
                [(INFO, ''agent_operation_start'', [''evaluator'', ''evaluate'']),
                 (ERROR, ''agent_operation_failed'', [''evaluator'', ''evaluate'']),
                 (INFO, ''agent_operation_end'', [''evaluator'', ''evaluate''])]\<rparr>)
      | Inr rs \<Rightarrow>
          (Inr rs,
           c\<lparr>events := events c @
                [(INFO, ''agent_operation_start'', [''evaluator'', ''evaluate'']),
                 (INFO, ''agent_operation_end'', [''evaluator'', ''evaluate''])]\<rparr>))"
  by (simp add: evaluate_def trace_def emit_def Let_def split: sum.splits)

lemma recommend_eq:
  "recommend L evaluations pol c =
     (Inr (rank_loop L pol 1 (sorted_evaluations evaluations)),
      c\<lparr>active_policy := pol,
        events := events c @
           [(INFO, ''agent_operation_start'', [''recommender'', ''recommend'']),
            (INFO, ''agent_operation_end'', [''recommender'', ''recommend''])]\<rparr>)"
  by (simp add: recommend_def trace_def emit_def apply_policy_def Let_def)

lemma denominator_nonzero: "max 1 (int n) \<noteq> 0"
  by simp

text \<open>The quotient that \<^verbatim>\<open>assess_risk\<close> clamps.\<close>

lemma assess_risk_eq:
  "assess_risk evaluations =
     Inr \<lparr>risk_score =
            min 1 (real_of_int (flag_count evaluations)
                     / real_of_int (max 1 (int (length evaluations)))),
          risk_bias_flags = flag_count evaluations,
          risk_level =
            (if 0.3 < min 1 (real_of_int (flag_count evaluations)
                               / real_of_int (max 1 (int (length evaluations))))
             then ''elevated'' else ''standard'')\<rparr>"
  unfolding assess_risk_def truediv_def exc_bind_def Let_def
  by (simp only: denominator_nonzero if_False sum.case) simp

subsection \<open>Risk assessment\<close>

text \<open>
  Claim C8. \<^verbatim>\<open>assess_risk([])\<close> returns score 0, level "standard" and 0 bias flags; and
  for every list of evaluations the division succeeds, so that \<^verbatim>\<open>ZeroDivisionError\<close>
  is never raised.
\<close>

theorem assess_risk_empty:
  "assess_risk [] = Inr \<lparr>risk_score = 0, risk_bias_flags = 0, risk_level = ''standard''\<rparr>
   \<and> (\<exists>r. assess_risk evaluations = Inr r)
   \<and> truediv (flag_count evaluations) (max 1 (int (length evaluations))) \<noteq> Inl ZeroDivisionError"
proof -
  have "assess_risk [] = Inr \<lparr>risk_score = 0, risk_bias_flags = 0, risk_level = ''standard''\<rparr>"
    by (simp add: assess_risk_eq flag_count_def)
  moreover have "\<exists>r. assess_risk evaluations = Inr r"
    by (simp add: assess_risk_eq)
  moreover have "truediv (flag_count evaluations) (max 1 (int (length evaluations)))
      \<noteq> Inl ZeroDivisionError"
    unfolding truediv_def by (simp only: denominator_nonzero if_False) simp
  ultimately show ?thesis by blast
qed

text \<open>
  Claim C2, as stated, at one evaluation with two bias flags: the quotient of flags and
  evaluations is 2, the score returned is 1.
\<close>

theorem assess_risk_score_counterexample:
  "assess_risk [flagged_evaluation]
     = Inr \<lparr>risk_score = 1, risk_bias_flags = 2, risk_level = ''elevated''\<rparr>
   \<and> real_of_int (flag_count [flagged_evaluation])
       / real_of_int (max 1 (int (length [flagged_evaluation]))) = 2"
  by (simp add: assess_risk_eq flag_count_def flagged_evaluation_def)

text \<open>
  Claim C2, amended. For every list of evaluations \<^verbatim>\<open>assess_risk\<close> returns a
  \<^verbatim>\<open>RiskAssessment\<close> whose score is the quotient of the total bias-flag count and
  \<open>max 1 (number of evaluations)\<close>, clamped to at most 1, whose flag count is that
  total, and whose level is "elevated" if the quotient (equivalently the score) exceeds
  0.3 and "standard" otherwise.
\<close>

theorem assess_risk_clamped:
  "\<exists>r. assess_risk evaluations = Inr r
     \<and> risk_score r =
         min 1 (real_of_int (flag_count evaluations)
                  / real_of_int (max 1 (int (length evaluations))))
     \<and> risk_bias_flags r = flag_count evaluations
     \<and> risk_level r =
         (if 0.3 < real_of_int (flag_count evaluations)
                     / real_of_int (max 1 (int (length evaluations)))
          then ''elevated'' else ''standard'')
     \<and> risk_level r = (if 0.3 < risk_score r then ''elevated'' else ''standard'')"
proof -
  define q where
    "q = real_of_int (flag_count evaluations) / real_of_int (max 1 (int (length evaluations)))"
  define r where
    "r = \<lparr>risk_score = min 1 q, risk_bias_flags = flag_count evaluations,
           risk_level = (if 0.3 < min 1 q then ''elevated'' else ''standard'')\<rparr>"
  have level: "(0.3 < min 1 q) = (0.3 < q)"
    by (cases "q \<le> 1") (simp_all add: min_def)
  have ret: "assess_risk evaluations = Inr r"
    unfolding q_def r_def by (rule assess_risk_eq)
  have s: "risk_score r = min 1 q" and f: "risk_bias_flags r = flag_count evaluations"
    and l: "risk_level r = (if 0.3 < min 1 q then ''elevated'' else ''standard'')"
    by (simp_all add: r_def)
  have l1: "risk_level r = (if 0.3 < q then ''elevated'' else ''standard'')"
    using l level by presburger
  have l2: "risk_level r = (if 0.3 < risk_score r then ''elevated'' else ''standard'')"
    using l s by presburger
  from ret s f l1 l2 show ?thesis
    unfolding q_def by blast
qed

subsection \<open>Research stage\<close>

lemma research_loop_map:
  "research_loop L jd content_bonus ps = map (research_seed L jd content_bonus) ps"
  by (induction ps) simp_all

lemma default_crew_pool: "candidate_pool default_crew = BASE_PROFILES"
  by (simp add: default_crew_def RecruitmentCrew_init_def set_policy_def apply_policy_def Let_def)

lemma base_profile_names:
  "map p_name BASE_PROFILES = [''Alex Dev'', ''Marina Byte'', ''Kai Ops'', ''Nia Vector'']"
  by (simp add: BASE_PROFILES_def)

lemma seed_name: "s_name (research_seed L jd content_bonus p) = p_name p"
  by (simp add: research_seed_def)

lemma seed_names: "map s_name (research_loop L jd content_bonus ps) = map p_name ps"
  by (simp add: research_loop_map seed_name)

text \<open>
  Claim C3, as stated, at \<open>limit = -1\<close> on the default pool of four profiles: the slice
  \<^verbatim>\<open>pool[:-1]\<close> drops the last profile only, and three seeds are returned.
\<close>

theorem research_negative_limit_counterexample:
  "fst (research stub_pylib default_job_description (- 1) default_crew)
     = Inr (research_loop stub_pylib default_job_description
              (real (length (content default_job_description)) / 400) (butlast BASE_PROFILES))
   \<and> map s_name (research_loop stub_pylib default_job_description
              (real (length (content default_job_description)) / 400) (butlast BASE_PROFILES))
       = [''Alex Dev'', ''Marina Byte'', ''Kai Ops'']"
proof -
  have len: "length BASE_PROFILES = 4"
    by (simp add: BASE_PROFILES_def)
  have "slice_to BASE_PROFILES (- 1) = butlast BASE_PROFILES"
    by (simp add: slice_to_def len butlast_conv_take)
  moreover have "map p_name (butlast BASE_PROFILES) = [''Alex Dev'', ''Marina Byte'', ''Kai Ops'']"
    by (simp add: map_butlast base_profile_names)
  ultimately show ?thesis
    by (simp add: research_eq default_crew_pool seed_names)
qed

text \<open>
  Claim C3, amended. For every job description and every integer limit that is not
  negative, \<^verbatim>\<open>research\<close> returns the seeds of the first \<open>limit\<close> profiles of the pool, in
  the pool's order: their number is the smaller of \<open>limit\<close> and the size of the pool,
  hence at most \<open>limit\<close>, and for \<open>limit = 0\<close> the result is empty.
\<close>

theorem research_limit:
  assumes "0 \<le> limit"
  shows "\<exists>seeds. fst (research L jd limit c) = Inr seeds
     \<and> int (length seeds) \<le> limit
     \<and> length seeds = min (nat limit) (length (candidate_pool c))
     \<and> seeds = map (research_seed L jd (real (length (content jd)) / 400))
                 (take (nat limit) (candidate_pool c))
     \<and> map s_name seeds = take (nat limit) (map p_name (candidate_pool c))
     \<and> (limit = 0 \<longrightarrow> seeds = [])"
proof -
  define seeds where
    "seeds = map (research_seed L jd (real (length (content jd)) / 400))
               (take (nat limit) (candidate_pool c))"
  have sl: "slice_to (candidate_pool c) limit = take (nat limit) (candidate_pool c)"
    using assms by (simp add: slice_to_def)
  have r: "fst (research L jd limit c) = Inr seeds"
    by (simp add: research_eq sl research_loop_map seeds_def)
  have l: "length seeds = min (nat limit) (length (candidate_pool c))"
    by (simp add: seeds_def min.commute)
  have l': "int (length seeds) \<le> limit"
    using assms l by linarith
  have n: "map s_name seeds = take (nat limit) (map p_name (candidate_pool c))"
    by (simp add: seeds_def seed_name take_map)
  have z: "limit = 0 \<longrightarrow> seeds = []"
    by (simp add: seeds_def)
  show ?thesis
    apply (rule exI [of _ seeds])
    using r l l' n z seeds_def apply (intro conjI)
         apply assumption+
    done
qed

theorem research_limit_witness:
  "(0::int) \<le> 2
   \<and> map s_name (projr (fst (research stub_pylib fixture_job_description 2 default_crew)))
       = [''Alex Dev'', ''Marina Byte'']
   \<and> (0::int) \<le> 0
   \<and> fst (research stub_pylib fixture_job_description 0 default_crew) = Inr []"
proof -
  have two: "(0::int) \<le> 2" and zero: "(0::int) \<le> 0"
    by simp_all
  obtain seeds where s: "fst (research stub_pylib fixture_job_description 2 default_crew) = Inr seeds"
    and n: "map s_name seeds = take (nat 2) (map p_name (candidate_pool default_crew))"
    using research_limit [OF two, of stub_pylib fixture_job_description default_crew] by blast
  obtain seeds0 where s0: "fst (research stub_pylib fixture_job_description 0 default_crew) = Inr seeds0"
    and e0: "(0::int) = 0 \<longrightarrow> seeds0 = []"
    using research_limit [OF zero, of stub_pylib fixture_job_description default_crew] by blast
  have "map s_name seeds = [''Alex Dev'', ''Marina Byte'']"
    using n by (simp add: default_crew_pool base_profile_names)
  with s s0 e0 show ?thesis
    by simp
qed

subsection \<open>Candidate identifiers\<close>

lemma seed_candidate_id:
  "s_candidate_id (research_seed L jd content_bonus p) = stable_candidate_id L (p_name p) (title jd)"
  by (simp add: research_seed_def)

lemma research_seed_in:
  assumes "fst (research L jd limit c) = Inr seeds" and "s \<in> set seeds"
  shows "s_candidate_id s = stable_candidate_id L (s_name s) (title jd)"
proof -
  from assms(1) have "seeds = map (research_seed L jd (real (length (content jd)) / 400))
      (slice_to (candidate_pool c) limit)"
    by (simp add: research_eq research_loop_map)
  with assms(2) obtain p where "s = research_seed L jd (real (length (content jd)) / 400) p"
    by auto
  then show ?thesis
    by (simp add: seed_candidate_id seed_name)
qed

text \<open>
  Claim C7. Two calls of \<^verbatim>\<open>research\<close>, on any two crews, limits and job descriptions
  with the same title, give a candidate of the same name the same candidate id: the id
  is \<^verbatim>\<open>CAN-\<close> followed by the first eight characters of the hash of name, \<^verbatim>\<open>|\<close> and
  title, in upper case.
\<close>

theorem candidate_id_deterministic:
  assumes "fst (research L jd1 limit1 c1) = Inr seeds1"
    and "fst (research L jd2 limit2 c2) = Inr seeds2"
    and "title jd1 = title jd2"
    and "s1 \<in> set seeds1" and "s2 \<in> set seeds2"
    and "s_name s1 = s_name s2"
  shows "s_candidate_id s1 = s_candidate_id s2
     \<and> s_candidate_id s1
         = ''CAN-'' @ upper (take 8 (md5_hexdigest L (s_name s1 @ ''|'' @ title jd1)))"
proof -
  have a: "s_candidate_id s1 = stable_candidate_id L (s_name s1) (title jd1)"
    using assms(1,4) by (rule research_seed_in)
  have b: "s_candidate_id s2 = stable_candidate_id L (s_name s2) (title jd2)"
    using assms(2,5) by (rule research_seed_in)
  from a b assms(3,6) show ?thesis
    by (simp add: stable_candidate_id_def Let_def)
qed

lemma upper_alex: "upper ''Alex Dev'' = ''ALEX DEV''"
  by code_simp

theorem candidate_id_deterministic_witness:
  "s_candidate_id (hd (projr (fst (research stub_pylib fixture_job_description 4 default_crew))))
     = ''CAN-ALEX DEV''
   \<and> s_candidate_id (hd (projr (fst (research stub_pylib
         (fixture_job_description\<lparr>content := ''Maintain data pipelines''\<rparr>) 1 default_crew))))
     = ''CAN-ALEX DEV''"
proof -
  let ?jd2 = "fixture_job_description\<lparr>content := ''Maintain data pipelines''\<rparr>"
  define seeds1 where "seeds1 = projr (fst (research stub_pylib fixture_job_description 4 default_crew))"
  define seeds2 where "seeds2 = projr (fst (research stub_pylib ?jd2 1 default_crew))"
  have r1: "fst (research stub_pylib fixture_job_description 4 default_crew) = Inr seeds1"
    by (simp add: seeds1_def research_eq)
  have r2: "fst (research stub_pylib ?jd2 1 default_crew) = Inr seeds2"
    by (simp add: seeds2_def research_eq)
  have n1: "map s_name seeds1 = [''Alex Dev'', ''Marina Byte'', ''Kai Ops'', ''Nia Vector'']"
    by (simp add: seeds1_def research_eq seed_names slice_to_def default_crew_pool
        take_map [symmetric] base_profile_names)
  have n2: "map s_name seeds2 = [''Alex Dev'']"
    by (simp add: seeds2_def research_eq seed_names slice_to_def default_crew_pool
        take_map [symmetric] base_profile_names)
  from n1 have ne1: "seeds1 \<noteq> []" by auto
  from n2 have ne2: "seeds2 \<noteq> []" by auto
  from n1 ne1 have h1: "s_name (hd seeds1) = ''Alex Dev''"
    by (cases seeds1) simp_all
  from n2 ne2 have h2: "s_name (hd seeds2) = ''Alex Dev''"
    by (cases seeds2) simp_all
  have t: "title fixture_job_description = title ?jd2"
    by simp
  have k: "take 8 (''Alex Dev'' @ ''|'' @ title fixture_job_description) = ''Alex Dev''"
    by simp
  have m1: "hd seeds1 \<in> set seeds1"
    using ne1 by (rule hd_in_set)
  have m2: "hd seeds2 \<in> set seeds2"
    using ne2 by (rule hd_in_set)
  have same: "s_name (hd seeds1) = s_name (hd seeds2)"
    using h1 h2 by simp
  note res = candidate_id_deterministic [OF r1 r2 t m1 m2 same]
  from res have e: "s_candidate_id (hd seeds1) = s_candidate_id (hd seeds2)"
    by (rule conjunct1)
  from res have "s_candidate_id (hd seeds1)
      = ''CAN-'' @ upper (take 8 (md5_hexdigest stub_pylib
          (s_name (hd seeds1) @ ''|'' @ title fixture_job_description)))"
    by (rule conjunct2)
  then have i1: "s_candidate_id (hd seeds1) = ''CAN-ALEX DEV''"
    by (simp add: h1 stub_pylib_def upper_alex)
  have i2: "s_candidate_id (hd seeds2) = ''CAN-ALEX DEV''"
    using e [symmetric] i1 by (rule trans)
  from i1 i2 show ?thesis
    unfolding seeds1_def seeds2_def by (rule conjI)
qed

subsection \<open>Ranking stage\<close>

lemma fixture_seed_scores:
  "map s_score (research_loop L fixture_job_description
      (real (length (content fixture_job_description)) / 400) BASE_PROFILES)
   = [0.6475, 0.7675, 0.7275, 0.6875]"
  by (simp add: research_loop_map research_seed_def fixture_job_description_def BASE_PROFILES_def)

lemma rank_candidate_final_score:
  "r_final_score (rank_candidate L pol position e)
     = min 1 (e_score e
         + (if list_ex (\<lambda>tag. tag \<in> set [''Manual Review Required'', ''Data Deficient''])
                (e_tags e)
            then diversity_bonus pol else 0))"
  by (simp add: rank_candidate_def Let_def)

lemma rank_candidate_ident:
  "r_candidate_id (rank_candidate L pol position e) = e_candidate_id e"
  "r_name (rank_candidate L pol position e) = e_candidate_name e"
  by (simp_all add: rank_candidate_def Let_def)

lemma rank_loop_final_scores:
  "map r_final_score (rank_loop L pol position evaluations)
     = map (\<lambda>e. min 1 (e_score e
         + (if list_ex (\<lambda>tag. tag \<in> set [''Manual Review Required'', ''Data Deficient''])
                (e_tags e)
            then diversity_bonus pol else 0))) evaluations"
  by (induction evaluations arbitrary: position) (simp_all add: rank_candidate_final_score)

lemma rank_loop_names:
  "map r_name (rank_loop L pol position evaluations) = map e_candidate_name evaluations"
  by (induction evaluations arbitrary: position) (simp_all add: rank_candidate_ident)

lemma sorted_pair: "sorted_evaluations [marina_evaluation, kai_evaluation] = [marina_evaluation, kai_evaluation]"
  by (simp add: sorted_evaluations_def marina_evaluation_def kai_evaluation_def)

text \<open>
  Claim C1 at the evaluations of Marina Byte and Kai Ops under the default policy: the
  list is sorted by the raw score before the diversity bonus is added, and the
  candidate ranked second ends with the higher final score, 0.8775 against 0.8675.
\<close>

theorem recommend_not_sorted_by_final_score:
  "map r_final_score
     (projr (fst (recommend stub_pylib [marina_evaluation, kai_evaluation]
        RankingPolicy_default default_crew)))
   = [0.8675, 0.8775]
   \<and> map r_name
     (projr (fst (recommend stub_pylib [marina_evaluation, kai_evaluation]
        RankingPolicy_default default_crew)))
   = [''Marina Byte'', ''Kai Ops'']"
  by (simp add: recommend_eq sorted_pair rank_candidate_final_score rank_candidate_ident)
     (simp add: marina_evaluation_def kai_evaluation_def RankingPolicy_default_def)

text \<open>What the ranking stage does guarantee: the order is that of the raw scores.\<close>

lemma recommend_sorted_by_raw_score:
  "fst (recommend L evaluations pol c) = Inr (rank_loop L pol 1 (sorted_evaluations evaluations))
   \<and> sorted (map (\<lambda>e. - e_score e) (sorted_evaluations evaluations))
   \<and> filter (\<lambda>e. e_score e = k) (sorted_evaluations evaluations)
       = filter (\<lambda>e. e_score e = k) evaluations"
proof -
  have "filter (\<lambda>e. - e_score e = - k) (sort_key (\<lambda>e. - e_score e) evaluations)
      = filter (\<lambda>e. - e_score e = - k) evaluations"
    by (rule sort_key_stable)
  then show ?thesis
    by (simp add: recommend_eq sorted_evaluations_def)
qed

lemma rank_loop_all2:
  assumes "\<And>position e. e \<in> set evaluations \<Longrightarrow> P (rank_candidate L pol position e) e"
  shows "list_all2 P (rank_loop L pol position evaluations) evaluations"
  using assms by (induction evaluations arbitrary: position) simp_all

text \<open>
  Claim C6, as stated, at a policy whose diversity bonus is negative and at an evaluation
  whose raw score exceeds 1: in both the final score is below the raw score.
\<close>

theorem final_score_below_raw_counterexample:
  "r_final_score (hd (projr (fst (recommend stub_pylib [kai_evaluation] penalty_policy
        default_crew))))
     < e_score kai_evaluation
   \<and> r_final_score (hd (projr (fst (recommend stub_pylib [overscored_evaluation]
        RankingPolicy_default default_crew))))
     < e_score overscored_evaluation"
  by (simp add: recommend_eq sorted_evaluations_def rank_candidate_final_score)
     (simp add: kai_evaluation_def overscored_evaluation_def marina_evaluation_def
        penalty_policy_def RankingPolicy_default_def)

text \<open>
  Claim C6, amended. For every policy whose diversity bonus is not negative and every
  sequence of evaluations whose scores are at most 1, \<^verbatim>\<open>recommend\<close> returns one ranked
  candidate per evaluation, in the order of the evaluations sorted by raw score, each
  with the candidate id of its evaluation and a final score greater than or equal to
  that evaluation's raw score.
\<close>

theorem final_score_ge_raw:
  assumes "0 \<le> diversity_bonus pol"
    and "\<forall>e \<in> set evaluations. e_score e \<le> 1"
  shows "\<exists>ranked. fst (recommend L evaluations pol c) = Inr ranked
     \<and> list_all2 (\<lambda>r e. r_candidate_id r = e_candidate_id e \<and> e_score e \<le> r_final_score r)
          ranked (sorted_evaluations evaluations)"
proof -
  have one: "r_candidate_id (rank_candidate L pol position e) = e_candidate_id e
      \<and> e_score e \<le> r_final_score (rank_candidate L pol position e)"
    if "e \<in> set (sorted_evaluations evaluations)" for position e
  proof -
    from that have "e \<in> set evaluations"
      by (simp add: sorted_evaluations_def)
    with assms(2) have "e_score e \<le> 1"
      by blast
    with assms(1) show ?thesis
      by (simp add: rank_candidate_final_score rank_candidate_ident)
  qed
  have "list_all2 (\<lambda>r e. r_candidate_id r = e_candidate_id e \<and> e_score e \<le> r_final_score r)
      (rank_loop L pol 1 (sorted_evaluations evaluations)) (sorted_evaluations evaluations)"
    by (rule rank_loop_all2) (rule one)
  moreover have "fst (recommend L evaluations pol c)
      = Inr (rank_loop L pol 1 (sorted_evaluations evaluations))"
    by (simp add: recommend_eq)
  ultimately show ?thesis
    by blast
qed

theorem final_score_ge_raw_witness:
  "0 \<le> diversity_bonus RankingPolicy_default
   \<and> e_score marina_evaluation \<le> 1 \<and> e_score kai_evaluation \<le> 1
   \<and> list_all2 (\<lambda>r e. r_candidate_id r = e_candidate_id e \<and> e_score e \<le> r_final_score r)
        (projr (fst (recommend stub_pylib [marina_evaluation, kai_evaluation]
           RankingPolicy_default default_crew)))
        (sorted_evaluations [marina_evaluation, kai_evaluation])"
proof -
  have b: "0 \<le> diversity_bonus RankingPolicy_default"
    by (simp add: RankingPolicy_default_def)
  have m: "e_score marina_evaluation \<le> 1" and k: "e_score kai_evaluation \<le> 1"
    by (simp_all add: marina_evaluation_def kai_evaluation_def)
  from m k have s: "\<forall>e \<in> set [marina_evaluation, kai_evaluation]. e_score e \<le> 1"
    by simp
  from final_score_ge_raw [OF b s, of stub_pylib default_crew]
  obtain ranked where r: "fst (recommend stub_pylib [marina_evaluation, kai_evaluation]
        RankingPolicy_default default_crew) = Inr ranked"
    and a: "list_all2 (\<lambda>r e. r_candidate_id r = e_candidate_id e \<and> e_score e \<le> r_final_score r)
        ranked (sorted_evaluations [marina_evaluation, kai_evaluation])"
    by blast
  from r have "projr (fst (recommend stub_pylib [marina_evaluation, kai_evaluation]
        RankingPolicy_default default_crew)) = ranked"
    by simp
  with a b m k show ?thesis
    by simp
qed

subsection \<open>The campaign run\<close>

lemma evaluate_loop_no_default:
  assumes "map_of thresholds ''default'' = None" and "seeds \<noteq> []"
  shows "evaluate_loop thresholds seeds = Inl (KeyError ''default'')"
  using assms
  by (cases seeds)
     (simp_all add: evaluate_seed_def derive_bias_flags_def getitem_def exc_bind_def Let_def)

lemma evaluate_seed_default:
  assumes "map_of thresholds ''default'' = Some d"
  shows "\<exists>r. evaluate_seed thresholds seed = Inr r"
  using assms
  by (simp add: evaluate_seed_def derive_bias_flags_def getitem_def exc_bind_def Let_def)

lemma evaluate_loop_default:
  assumes "map_of thresholds ''default'' = Some d"
  shows "\<exists>evaluations. evaluate_loop thresholds seeds = Inr evaluations
     \<and> length evaluations = length seeds"
proof (induction seeds)
  case Nil
  show ?case by simp
next
  case (Cons seed seeds)
  from evaluate_seed_default [OF assms] obtain r where "evaluate_seed thresholds seed = Inr r"
    by blast
  moreover from Cons.IH obtain rs where "evaluate_loop thresholds seeds = Inr rs"
    and "length rs = length seeds"
    by blast
  ultimately show ?case
    by (simp add: exc_bind_def)
qed

lemma evaluate_loop_error:
  assumes "evaluate_loop thresholds seeds = Inl e"
  shows "e = KeyError ''default'' \<and> map_of thresholds ''default'' = None \<and> seeds \<noteq> []"
proof (cases "map_of thresholds ''default''")
  case None
  show ?thesis
  proof (cases "seeds = []")
    case True
    with assms show ?thesis by simp
  next
    case False
    with None assms evaluate_loop_no_default [of thresholds seeds] show ?thesis
      by simp
  qed
next
  case (Some d)
  with assms evaluate_loop_default [of thresholds d seeds] show ?thesis
    by auto
qed

text \<open>What a campaign run returns and records, by the outcome of the evaluation loop.\<close>

lemma run_campaign_failure:
  assumes "evaluate_loop (bias_thresholds c)
      (research_loop L payload (real (length (content payload)) / 400)
         (slice_to (candidate_pool c) limit)) = Inl e"
    and "payload = (case jd of Some j \<Rightarrow> j | None \<Rightarrow> job_description c)"
  shows "fst (run_campaign L jd limit c)
      = Inl (CrewError ''crew'' ''run_campaign'' (CrewError ''evaluator'' ''evaluate'' e))"
    and "latest_candidates (snd (run_campaign L jd limit c)) = latest_candidates c"
    and "latest_evaluations (snd (run_campaign L jd limit c)) = latest_evaluations c"
    and "risk_history (snd (run_campaign L jd limit c)) = risk_history c"
  using assms
  by (simp_all add: run_campaign_def run_campaign_with_def Let_def trace_def then_do_def research_eq evaluate_eq emit_def)

lemma run_campaign_success:
  assumes "evaluate_loop (bias_thresholds c)
      (research_loop L payload (real (length (content payload)) / 400)
         (slice_to (candidate_pool c) limit)) = Inr evaluations"
    and "payload = (case jd of Some j \<Rightarrow> j | None \<Rightarrow> job_description c)"
    and "assess_risk evaluations = Inr risk"
  shows "fst (run_campaign L jd limit c)
      = Inr (rank_loop L (policy c) 1 (sorted_evaluations evaluations), evaluations)"
    and "latest_candidates (snd (run_campaign L jd limit c))
      = rank_loop L (policy c) 1 (sorted_evaluations evaluations)"
    and "latest_evaluations (snd (run_campaign L jd limit c)) = evaluations"
    and "risk_history (snd (run_campaign L jd limit c)) = risk_history c @ [risk]"
  using assms
  by (simp_all add: run_campaign_def run_campaign_with_def Let_def trace_def then_do_def research_eq evaluate_eq
      recommend_eq emit_def record_state_def)



lemma base_profiles_4: "slice_to BASE_PROFILES 4 = BASE_PROFILES"
  by (simp add: slice_to_def BASE_PROFILES_def)

text \<open>The crew's own run fails in the evaluator only, on thresholds without \<^verbatim>\<open>default\<close>.\<close>

lemma run_campaign_own_agents_error:
  assumes "fst (run_campaign L jd limit c) = Inl err"
  shows "err = CrewError ''crew'' ''run_campaign''
      (CrewError ''evaluator'' ''evaluate'' (KeyError ''default''))"
proof -
  define payload where "payload = (case jd of Some j \<Rightarrow> j | None \<Rightarrow> job_description c)"
  define seeds where
    "seeds = research_loop L payload (real (length (content payload)) / 400)
       (slice_to (candidate_pool c) limit)"
  show ?thesis
  proof (cases "evaluate_loop (bias_thresholds c) seeds")
    case (Inl cause)
    then have ev: "evaluate_loop (bias_thresholds c)
        (research_loop L payload (real (length (content payload)) / 400)
           (slice_to (candidate_pool c) limit)) = Inl cause"
      by (simp add: seeds_def)
    from evaluate_loop_error [OF ev] have "cause = KeyError ''default''"
      by simp
    with run_campaign_failure(1) [OF ev payload_def] assms show ?thesis
      by simp
  next
    case (Inr evaluations)
    then have ev: "evaluate_loop (bias_thresholds c)
        (research_loop L payload (real (length (content payload)) / 400)
           (slice_to (candidate_pool c) limit)) = Inr evaluations"
      by (simp add: seeds_def)
    obtain risk where "assess_risk evaluations = Inr risk"
      by (simp add: assess_risk_eq)
    from run_campaign_success(1) [OF ev payload_def this] assms show ?thesis
      by simp
  qed
qed

subsection \<open>Errors of a campaign run\<close>

lemma snapshots_emit: "snapshots (emit lvl event ctx c) = snapshots c"
  by (simp add: snapshots_def emit_def)

lemma research_dicts_eq:
  "research_dicts L pool jd limit c =
     (case research_loop_dicts L jd (real (length (content jd)) / 400) (slice_to pool limit) of
        Inl e \<Rightarrow>
          (Inl (CrewError ''researcher'' ''research'' e),
           c\<lparr>events := events c @
                [(INFO, ''agent_operation_start'', [''researcher'', ''research'']),
                 (ERROR, ''agent_operation_failed'', [''researcher'', ''research'']),
                 (INFO, ''agent_operation_end'', [''researcher'', ''research''])]\<rparr>)
      | Inr seeds \<Rightarrow>
          (Inr seeds,
           c\<lparr>events := events c @
                [(INFO, ''agent_operation_start'', [''researcher'', ''research'']),
                 (INFO, ''agent_operation_end'', [''researcher'', ''research''])]\<rparr>))"
  by (simp add: research_dicts_def trace_def emit_def Let_def split: sum.splits)

text \<open>On dictionaries that carry every key, the two researchers agree.\<close>

lemma research_loop_dicts_complete:
  "research_loop_dicts L jd content_bonus (map dict_of ps)
     = Inr (research_loop L jd content_bonus ps)"
  by (induction ps)
     (simp_all add: research_seed_dict_def research_seed_def dict_of_def getkey_def exc_bind_def)

lemma research_dicts_complete:
  "research_dicts L (map dict_of (candidate_pool c)) jd limit c = research L jd limit c"
proof -
  have "slice_to (map dict_of (candidate_pool c)) limit
      = map dict_of (slice_to (candidate_pool c) limit)"
    by (simp add: slice_to_def take_map)
  then show ?thesis
    by (simp add: research_dicts_eq research_eq research_loop_dicts_complete)
qed

text \<open>None of the agents writes a snapshot.\<close>

lemma research_frame: "\<forall>jd limit c. snapshots (snd (research L jd limit c)) = snapshots c"
  by (simp add: research_eq snapshots_def)

lemma research_dicts_frame:
  "\<forall>jd limit c. snapshots (snd (research_dicts L pool jd limit c)) = snapshots c"
  by (simp add: research_dicts_eq snapshots_def split: sum.splits)

lemma evaluate_frame: "\<forall>seeds c. snapshots (snd (evaluate seeds c)) = snapshots c"
  by (simp add: evaluate_eq snapshots_def split: sum.splits)

lemma recommend_frame:
  "\<forall>evaluations pol c. snapshots (snd (recommend L evaluations pol c)) = snapshots c"
  by (simp add: recommend_eq snapshots_def)

lemma trace_raises:
  assumes "body (emit INFO ''agent_operation_start'' [agent_name, operation] c) = (Inl e, c')"
  shows "fst (trace agent_name operation body c) = Inl (CrewError agent_name operation e)"
    and "snapshots (snd (trace agent_name operation body c)) = snapshots c'"
  using assms by (simp_all add: trace_def Let_def snapshots_emit)

text \<open>
  Claim C5. Let the researcher, the evaluator and the recommender be any agents that do
  not write the snapshots themselves. If one of the four steps of \<^verbatim>\<open>run_campaign\<close>
  (research, evaluate, recommend, risk assessment) raises \<open>e\<close>, each step taken in the
  state its predecessors left, then the run ends in the \<^verbatim>\<open>CrewError\<close> of agent \<^verbatim>\<open>crew\<close>
  and operation \<^verbatim>\<open>run_campaign\<close> raised from \<open>e\<close>, and \<open>latest_candidates\<close>,
  \<open>latest_evaluations\<close> and \<open>risk_history\<close> are what they were before the call. (An
  agent's own error \<open>e\<close> is the \<^verbatim>\<open>CrewError\<close> of that agent and operation, raised from
  the original exception: \<open>research_dicts_eq\<close>, \<open>evaluate_eq\<close>.)
\<close>

theorem run_campaign_error_commits_nothing:
  assumes frame_r: "\<forall>jd' limit' c'. snapshots (snd (researcher jd' limit' c')) = snapshots c'"
    and frame_e: "\<forall>seeds' c'. snapshots (snd (evaluator seeds' c')) = snapshots c'"
    and frame_k: "\<forall>evaluations' pol' c'.
        snapshots (snd (recommender evaluations' pol' c')) = snapshots c'"
    and payload: "payload = (case jd of Some j \<Rightarrow> j | None \<Rightarrow> job_description c)"
    and start: "c1 = emit INFO ''agent_operation_start'' [''crew'', ''run_campaign'']
        (emit INFO ''crew_run_campaign_start'' [] c)"
    and stage: "fst (researcher payload limit c1) = Inl e
      \<or> (researcher payload limit c1 = (Inr seeds, c2) \<and> fst (evaluator seeds c2) = Inl e)
      \<or> (researcher payload limit c1 = (Inr seeds, c2)
          \<and> evaluator seeds c2 = (Inr evaluations, c3)
          \<and> fst (recommender evaluations (policy c3) c3) = Inl e)
      \<or> (researcher payload limit c1 = (Inr seeds, c2)
          \<and> evaluator seeds c2 = (Inr evaluations, c3)
          \<and> recommender evaluations (policy c3) c3 = (Inr ranked, c4)
          \<and> risk_of evaluations = Inl e)"
  shows "fst (run_campaign_with researcher evaluator recommender risk_of jd limit c)
       = Inl (CrewError ''crew'' ''run_campaign'' e)
    \<and> latest_candidates (snd (run_campaign_with researcher evaluator recommender risk_of
         jd limit c)) = latest_candidates c
    \<and> latest_evaluations (snd (run_campaign_with researcher evaluator recommender risk_of
         jd limit c)) = latest_evaluations c
    \<and> risk_history (snd (run_campaign_with researcher evaluator recommender risk_of
         jd limit c)) = risk_history c"
proof -
  define body where
    "body = then_do (researcher payload limit) (\<lambda>seeds.
            then_do (evaluator seeds) (\<lambda>evaluations.
            then_do (\<lambda>c'. recommender evaluations (policy c') c') (\<lambda>ranked.
            then_do (\<lambda>c'. (risk_of evaluations, c')) (\<lambda>risk c'.
              (Inr (ranked, evaluations),
               emit INFO ''crew_run_campaign_complete'' []
                 (record_state ranked evaluations risk c'))))))"
  have run: "run_campaign_with researcher evaluator recommender risk_of jd limit c
      = trace ''crew'' ''run_campaign'' body (emit INFO ''crew_run_campaign_start'' [] c)"
    by (simp add: run_campaign_with_def body_def payload Let_def)
  have s1: "snapshots c1 = snapshots c"
    by (simp add: start snapshots_emit)
  have "\<exists>c'. body c1 = (Inl e, c') \<and> snapshots c' = snapshots c"
    using stage
  proof (elim disjE conjE)
    assume a: "fst (researcher payload limit c1) = Inl e"
    then obtain c' where f: "researcher payload limit c1 = (Inl e, c')"
      by (cases "researcher payload limit c1") simp
    then have "body c1 = (Inl e, c')"
      by (simp add: body_def then_do_def)
    moreover have "snapshots c' = snapshots c"
      using frame_r [rule_format, of payload limit c1] f s1 by simp
    ultimately show ?thesis
      by blast
  next
    assume r: "researcher payload limit c1 = (Inr seeds, c2)"
      and a: "fst (evaluator seeds c2) = Inl e"
    from a obtain c' where f: "evaluator seeds c2 = (Inl e, c')"
      by (cases "evaluator seeds c2") simp
    with r have "body c1 = (Inl e, c')"
      by (simp add: body_def then_do_def)
    moreover have "snapshots c2 = snapshots c"
      using frame_r [rule_format, of payload limit c1] r s1 by simp
    then have "snapshots c' = snapshots c"
      using frame_e [rule_format, of seeds c2] f by simp
    ultimately show ?thesis
      by blast
  next
    assume r: "researcher payload limit c1 = (Inr seeds, c2)"
      and v: "evaluator seeds c2 = (Inr evaluations, c3)"
      and a: "fst (recommender evaluations (policy c3) c3) = Inl e"
    from a obtain c' where f: "recommender evaluations (policy c3) c3 = (Inl e, c')"
      by (cases "recommender evaluations (policy c3) c3") simp
    with r v have "body c1 = (Inl e, c')"
      by (simp add: body_def then_do_def)
    moreover have "snapshots c2 = snapshots c"
      using frame_r [rule_format, of payload limit c1] r s1 by simp
    then have "snapshots c3 = snapshots c"
      using frame_e [rule_format, of seeds c2] v by simp
    then have "snapshots c' = snapshots c"
      using frame_k [rule_format, of evaluations "policy c3" c3] f by simp
    ultimately show ?thesis
      by blast
  next
    assume r: "researcher payload limit c1 = (Inr seeds, c2)"
      and v: "evaluator seeds c2 = (Inr evaluations, c3)"
      and k: "recommender evaluations (policy c3) c3 = (Inr ranked, c4)"
      and a: "risk_of evaluations = Inl e"
    from r v k a have "body c1 = (Inl e, c4)"
      by (simp add: body_def then_do_def)
    moreover have "snapshots c2 = snapshots c"
      using frame_r [rule_format, of payload limit c1] r s1 by simp
    then have "snapshots c3 = snapshots c"
      using frame_e [rule_format, of seeds c2] v by simp
    then have "snapshots c4 = snapshots c"
      using frame_k [rule_format, of evaluations "policy c3" c3] k by simp
    ultimately show ?thesis
      by blast
  qed
  then obtain c' where b: "body c1 = (Inl e, c')" and s: "snapshots c' = snapshots c"
    by blast
  from b have b': "body (emit INFO ''agent_operation_start'' [''crew'', ''run_campaign'']
      (emit INFO ''crew_run_campaign_start'' [] c)) = (Inl e, c')"
    by (simp add: start)
  note t = trace_raises [of body "''crew''" "''run_campaign''"
      "emit INFO ''crew_run_campaign_start'' [] c" e c', OF b']
  from t(2) s have "snapshots (snd (run_campaign_with researcher evaluator recommender risk_of
      jd limit c)) = snapshots c"
    by (simp add: run)
  with t(1) show ?thesis
    by (simp add: run snapshots_def)
qed

lemma crew_with_history_fields:
  "candidate_pool crew_with_history = BASE_PROFILES"
  "bias_thresholds crew_with_history = [(''default'', 0.65)]"
  "latest_evaluations crew_with_history = [marina_evaluation, kai_evaluation]"
  "risk_history crew_with_history
     = [\<lparr>risk_score = 0.5, risk_bias_flags = 1, risk_level = ''elevated''\<rparr>]"
  by (simp_all add: crew_with_history_def default_crew_def RecruitmentCrew_init_def
      set_policy_def apply_policy_def Let_def)

lemma incomplete_pool_raises:
  "research_loop_dicts L jd content_bonus (slice_to incomplete_pool 4) = Inl (KeyError ''role'')"
proof -
  have "slice_to incomplete_pool 4 = incomplete_pool"
    by (simp add: slice_to_def incomplete_pool_def)
  moreover have "\<exists>seed. research_seed_dict L jd content_bonus (dict_of (hd BASE_PROFILES)) = Inr seed"
    by (simp add: research_seed_dict_def dict_of_def getkey_def exc_bind_def)
  ultimately show ?thesis
    by (auto simp: incomplete_pool_def research_seed_dict_def getkey_def exc_bind_def)
qed

theorem run_campaign_error_commits_nothing_witness:
  "fst (run_campaign_with (research_dicts stub_pylib incomplete_pool) evaluate
      (recommend stub_pylib) assess_risk None 4 crew_with_history)
     = Inl (CrewError ''crew'' ''run_campaign''
         (CrewError ''researcher'' ''research'' (KeyError ''role'')))
   \<and> snapshots (snd (run_campaign_with (research_dicts stub_pylib incomplete_pool) evaluate
      (recommend stub_pylib) assess_risk None 4 crew_with_history))
     = snapshots crew_with_history
   \<and> fst (run_campaign_with (research stub_pylib) evaluate (recommend stub_pylib) raising_risk
      None 4 crew_with_history)
     = Inl (CrewError ''crew'' ''run_campaign'' ZeroDivisionError)
   \<and> snapshots (snd (run_campaign_with (research stub_pylib) evaluate (recommend stub_pylib)
      raising_risk None 4 crew_with_history))
     = snapshots crew_with_history
   \<and> fst (run_campaign stub_pylib None 4
        (crew_with_history\<lparr>bias_thresholds := [(''Backend Engineer'', 0.7)]\<rparr>))
     = Inl (CrewError ''crew'' ''run_campaign''
         (CrewError ''evaluator'' ''evaluate'' (KeyError ''default'')))
   \<and> snapshots (snd (run_campaign stub_pylib None 4
        (crew_with_history\<lparr>bias_thresholds := [(''Backend Engineer'', 0.7)]\<rparr>)))
     = snapshots crew_with_history
   \<and> latest_evaluations crew_with_history = [marina_evaluation, kai_evaluation]"
proof -
  define payload where "payload = job_description crew_with_history"
  define c1 where
    "c1 = emit INFO ''agent_operation_start'' [''crew'', ''run_campaign'']
       (emit INFO ''crew_run_campaign_start'' [] crew_with_history)"
  have p: "payload = (case None of Some j \<Rightarrow> j | None \<Rightarrow> job_description crew_with_history)"
    by (simp add: payload_def)
  have pool: "candidate_pool c1 = BASE_PROFILES"
    and th: "bias_thresholds c1 = [(''default'', 0.65)]"
    by (simp_all add: c1_def emit_def crew_with_history_fields)
  \<comment> \<open>the researcher raises on the dictionary without a role\<close>
  have early: "fst (research_dicts stub_pylib incomplete_pool payload 4 c1)
      = Inl (CrewError ''researcher'' ''research'' (KeyError ''role''))"
    by (simp add: research_dicts_eq incomplete_pool_raises)
  note first = run_campaign_error_commits_nothing
    [where researcher = "research_dicts stub_pylib incomplete_pool" and evaluator = evaluate
       and recommender = "recommend stub_pylib" and risk_of = assess_risk
       and jd = None and limit = 4 and c = crew_with_history,
     OF research_dicts_frame evaluate_frame recommend_frame p c1_def disjI1, OF early]
  \<comment> \<open>the risk assessment raises after the three agents have returned\<close>
  define seeds where
    "seeds = research_loop stub_pylib payload (real (length (content payload)) / 400)
       (slice_to (candidate_pool c1) 4)"
  define c2 where
    "c2 = c1\<lparr>events := events c1 @
       [(INFO, ''agent_operation_start'', [''researcher'', ''research'']),
        (INFO, ''agent_operation_end'', [''researcher'', ''research''])]\<rparr>"
  have r: "research stub_pylib payload 4 c1 = (Inr seeds, c2)"
    by (simp add: research_eq seeds_def c2_def)
  have "map_of (bias_thresholds c2) ''default'' = Some 0.65"
    by (simp add: c2_def th)
  from evaluate_loop_default [OF this, of seeds]
  obtain evaluations where ev: "evaluate_loop (bias_thresholds c2) seeds = Inr evaluations"
    by blast
  define c3 where
    "c3 = c2\<lparr>events := events c2 @
       [(INFO, ''agent_operation_start'', [''evaluator'', ''evaluate'']),
        (INFO, ''agent_operation_end'', [''evaluator'', ''evaluate''])]\<rparr>"
  have v: "evaluate seeds c2 = (Inr evaluations, c3)"
    by (simp add: evaluate_eq ev c3_def)
  obtain ranked c4 where k: "recommend stub_pylib evaluations (policy c3) c3 = (Inr ranked, c4)"
    by (simp add: recommend_eq)
  have a: "raising_risk evaluations = Inl ZeroDivisionError"
    by (simp add: raising_risk_def)
  have late: "fst (research stub_pylib payload 4 c1) = Inl ZeroDivisionError
      \<or> (research stub_pylib payload 4 c1 = (Inr seeds, c2)
          \<and> fst (evaluate seeds c2) = Inl ZeroDivisionError)
      \<or> (research stub_pylib payload 4 c1 = (Inr seeds, c2)
          \<and> evaluate seeds c2 = (Inr evaluations, c3)
          \<and> fst (recommend stub_pylib evaluations (policy c3) c3) = Inl ZeroDivisionError)
      \<or> (research stub_pylib payload 4 c1 = (Inr seeds, c2)
          \<and> evaluate seeds c2 = (Inr evaluations, c3)
          \<and> recommend stub_pylib evaluations (policy c3) c3 = (Inr ranked, c4)
          \<and> raising_risk evaluations = Inl ZeroDivisionError)"
    using r v k a by blast
  note last = run_campaign_error_commits_nothing
    [where researcher = "research stub_pylib" and evaluator = evaluate
       and recommender = "recommend stub_pylib" and risk_of = raising_risk
       and jd = None and limit = 4 and c = crew_with_history,
     OF research_frame evaluate_frame recommend_frame p c1_def late]
  \<comment> \<open>the crew's own evaluator raises on thresholds without a default\<close>
  define crew' where "crew' = crew_with_history\<lparr>bias_thresholds := [(''Backend Engineer'', 0.7)]\<rparr>"
  define d1 where
    "d1 = emit INFO ''agent_operation_start'' [''crew'', ''run_campaign'']
       (emit INFO ''crew_run_campaign_start'' [] crew')"
  have p': "payload = (case None of Some j \<Rightarrow> j | None \<Rightarrow> job_description crew')"
    by (simp add: payload_def crew'_def)
  define seeds' where
    "seeds' = research_loop stub_pylib payload (real (length (content payload)) / 400)
       (slice_to (candidate_pool d1) 4)"
  define d2 where
    "d2 = d1\<lparr>events := events d1 @
       [(INFO, ''agent_operation_start'', [''researcher'', ''research'']),
        (INFO, ''agent_operation_end'', [''researcher'', ''research''])]\<rparr>"
  have r': "research stub_pylib payload 4 d1 = (Inr seeds', d2)"
    by (simp add: research_eq seeds'_def d2_def)
  have "BASE_PROFILES \<noteq> []"
    by (simp add: BASE_PROFILES_def)
  then have "seeds' \<noteq> []"
    by (simp add: seeds'_def d1_def crew'_def emit_def crew_with_history_fields
        base_profiles_4 research_loop_map)
  moreover have "map_of (bias_thresholds d2) ''default'' = None"
    by (simp add: d2_def d1_def crew'_def emit_def)
  ultimately have "evaluate_loop (bias_thresholds d2) seeds' = Inl (KeyError ''default'')"
    by (rule evaluate_loop_no_default [rotated])
  then have "fst (evaluate seeds' d2)
      = Inl (CrewError ''evaluator'' ''evaluate'' (KeyError ''default''))"
    by (simp add: evaluate_eq)
  with r' have middle: "research stub_pylib payload 4 d1 = (Inr seeds', d2)
      \<and> fst (evaluate seeds' d2)
          = Inl (CrewError ''evaluator'' ''evaluate'' (KeyError ''default''))"
    by simp
  note own = run_campaign_error_commits_nothing
    [where researcher = "research stub_pylib" and evaluator = evaluate
       and recommender = "recommend stub_pylib" and risk_of = assess_risk
       and jd = None and limit = 4 and c = crew',
     OF research_frame evaluate_frame recommend_frame p' d1_def disjI2, OF disjI1, OF middle]
  have "snapshots crew' = snapshots crew_with_history"
    by (simp add: crew'_def snapshots_def)
  with first last own show ?thesis
    unfolding crew'_def [symmetric]
    by (simp add: snapshots_def crew_with_history_fields run_campaign_def)
qed

subsection \<open>The default job description\<close>

lemma init_fields:
  "job_description (RecruitmentCrew_init jd_src pol cp pool th) = normalize_job_description jd_src"
  "candidate_pool (RecruitmentCrew_init jd_src pol cp pool th)
     = (case pool of None \<Rightarrow> BASE_PROFILES | Some ps \<Rightarrow> if ps = [] then BASE_PROFILES else ps)"
  "bias_thresholds (RecruitmentCrew_init jd_src pol cp pool None) = [(''default'', 0.65)]"
  "policy (RecruitmentCrew_init jd_src pol cp pool th)
     = (case pol of None \<Rightarrow> RankingPolicy_default | Some p \<Rightarrow> p)"
  "latest_candidates (RecruitmentCrew_init jd_src pol cp pool th) = []"
  "latest_evaluations (RecruitmentCrew_init jd_src pol cp pool th) = []"
  "risk_history (RecruitmentCrew_init jd_src pol cp pool th) = []"
  "events (RecruitmentCrew_init jd_src pol cp pool th) = []"
  by (simp_all add: RecruitmentCrew_init_def set_policy_def apply_policy_def Let_def)






subsection \<open>Re-ranking\<close>

lemma rerank_fallback:
  assumes "latest_evaluations c \<noteq> []"
  shows "fst (rerank L (Some []) pol c)
     = Inr (rank_loop L (case pol of None \<Rightarrow> policy c | Some p \<Rightarrow> p) 1
         (sorted_evaluations (latest_evaluations c)))"
proof -
  obtain risk where "assess_risk (latest_evaluations c) = Inr risk"
    by (simp add: assess_risk_eq)
  with assms show ?thesis
    by (simp add: rerank_def Let_def then_do_def recommend_eq set_policy_def apply_policy_def)
qed

text \<open>
  Claim C4, as stated, at a crew that holds a snapshot of two evaluations: \<^verbatim>\<open>rerank([])\<close>
  treats the empty list like \<^verbatim>\<open>None\<close>, ranks the snapshot and returns two candidates.
\<close>

theorem rerank_empty_list_counterexample:
  "map r_name (projr (fst (rerank stub_pylib (Some []) None crew_with_snapshot)))
     = [''Marina Byte'', ''Kai Ops'']"
proof -
  have snap: "latest_evaluations crew_with_snapshot = [marina_evaluation, kai_evaluation]"
    by (simp add: crew_with_snapshot_def)
  then have "latest_evaluations crew_with_snapshot \<noteq> []"
    by simp
  from rerank_fallback [OF this, of stub_pylib None] show ?thesis
    by (simp add: snap sorted_pair rank_candidate_ident)
       (simp add: marina_evaluation_def kai_evaluation_def)
qed

text \<open>
  Claim C4, amended. For every crew that holds no evaluation snapshot, \<^verbatim>\<open>rerank\<close> called
  with an empty list (or with no list at all) returns the empty list, raises nothing,
  logs the warning \<^verbatim>\<open>rerank_without_evaluations\<close> and changes nothing else. (When a
  snapshot exists, the empty list falls back to it: lemma \<open>rerank_fallback\<close>.)
\<close>

theorem rerank_without_snapshot:
  assumes "latest_evaluations c = []"
  shows "rerank L (Some []) pol c
       = (Inr [], c\<lparr>events := events c @ [(WARNING, ''rerank_without_evaluations'', [])]\<rparr>)
    \<and> rerank L None pol c
       = (Inr [], c\<lparr>events := events c @ [(WARNING, ''rerank_without_evaluations'', [])]\<rparr>)"
  using assms by (simp add: rerank_def emit_def)

theorem rerank_without_snapshot_witness:
  "latest_evaluations default_crew = []
   \<and> fst (rerank stub_pylib (Some []) None default_crew) = Inr []
   \<and> events (snd (rerank stub_pylib (Some []) None default_crew))
       = [(WARNING, ''rerank_without_evaluations'', [])]
   \<and> latest_candidates (snd (rerank stub_pylib (Some []) None default_crew)) = []
   \<and> risk_history (snd (rerank stub_pylib (Some []) None default_crew)) = []"
proof -
  have e: "latest_evaluations default_crew = []"
    by (simp add: default_crew_def init_fields)
  have f: "events default_crew = []" "latest_candidates default_crew = []"
    "risk_history default_crew = []"
    by (simp_all add: default_crew_def init_fields)
  from rerank_without_snapshot [OF e, of stub_pylib None] e f show ?thesis
    by simp
qed

subsection \<open>Outreach\<close>

lemma draft_frame:
  "\<exists>d. draft campaign_id candidate tmpl c
     = (Inr d, c\<lparr>events := events c @
          [(INFO, ''agent_operation_start'', [''writer'', ''draft'']),
           (INFO, ''agent_operation_end'', [''writer'', ''draft''])]\<rparr>)"
  by (simp add: draft_def trace_def emit_def Let_def)

lemma draft_all_frame:
  "\<exists>ds evs. draft_all campaign_id tmpl roster c = (Inr ds, c\<lparr>events := evs\<rparr>)
     \<and> length ds = length roster"
proof (induction roster arbitrary: c)
  case Nil
  have "draft_all campaign_id tmpl [] c = (Inr [], c\<lparr>events := events c\<rparr>)"
    by simp
  then show ?case
    by (intro exI [of _ "[]"] exI [of _ "events c"]) simp
next
  case (Cons candidate rest)
  obtain d evs where d: "draft campaign_id candidate tmpl c = (Inr d, c\<lparr>events := evs\<rparr>)"
    using draft_frame by blast
  from Cons.IH [of "c\<lparr>events := evs\<rparr>"] obtain ds evs'
    where ds: "draft_all campaign_id tmpl rest (c\<lparr>events := evs\<rparr>) = (Inr ds, c\<lparr>events := evs'\<rparr>)"
      and len: "length ds = length rest"
    by auto
  have "draft_all campaign_id tmpl (candidate # rest) c = (Inr (d # ds), c\<lparr>events := evs'\<rparr>)"
    by (simp add: then_do_def d ds)
  with len show ?case
    by (intro exI [of _ "d # ds"] exI [of _ evs']) simp
qed

text \<open>
  Claim C10. \<^verbatim>\<open>generate_outreach\<close> raises nothing and changes no field of the crew but
  the log: in particular \<open>latest_candidates\<close>, \<open>latest_evaluations\<close> and
  \<open>risk_history\<close> after the call are what they were before it, for every campaign id,
  roster and template, the case of no candidates included.
\<close>

theorem generate_outreach_frame:
  "(\<exists>drafts evs. generate_outreach campaign_id candidates tmpl c = (Inr drafts, c\<lparr>events := evs\<rparr>))
   \<and> latest_candidates (snd (generate_outreach campaign_id candidates tmpl c))
       = latest_candidates c
   \<and> latest_evaluations (snd (generate_outreach campaign_id candidates tmpl c))
       = latest_evaluations c
   \<and> risk_history (snd (generate_outreach campaign_id candidates tmpl c)) = risk_history c"
proof -
  define roster where
    "roster = (case candidates of None \<Rightarrow> latest_candidates c
       | Some cs \<Rightarrow> if cs = [] then latest_candidates c else cs)"
  have "\<exists>drafts evs. generate_outreach campaign_id candidates tmpl c
      = (Inr drafts, c\<lparr>events := evs\<rparr>)"
  proof (cases "roster = []")
    case True
    then have "generate_outreach campaign_id candidates tmpl c
        = (Inr [], c\<lparr>events := events c @ [(WARNING, ''generate_outreach_no_candidates'', [])]\<rparr>)"
      by (simp add: generate_outreach_def roster_def emit_def)
    then show ?thesis
      by blast
  next
    case False
    then have "generate_outreach campaign_id candidates tmpl c
        = draft_all campaign_id (case tmpl of None \<Rightarrow> OutreachTemplate_default | Some t \<Rightarrow> t)
            roster c"
      by (simp add: generate_outreach_def roster_def Let_def)
    with draft_all_frame show ?thesis
      by metis
  qed
  then obtain drafts evs
    where g: "generate_outreach campaign_id candidates tmpl c = (Inr drafts, c\<lparr>events := evs\<rparr>)"
    by blast
  then have "latest_candidates (snd (generate_outreach campaign_id candidates tmpl c))
        = latest_candidates c"
    and "latest_evaluations (snd (generate_outreach campaign_id candidates tmpl c))
        = latest_evaluations c"
    and "risk_history (snd (generate_outreach campaign_id candidates tmpl c)) = risk_history c"
    by simp_all
  with g show ?thesis
    by blast
qed

subsection \<open>The fixture campaign\<close>

lemma evaluate_seed_fields:
  assumes "evaluate_seed thresholds seed = Inr r"
  shows "e_score r = min 1 (s_score seed + 0.1)"
    and "e_tags r = s_tags seed"
    and "e_candidate_name r = s_name seed"
  using assms by (auto simp: evaluate_seed_def exc_bind_def split: sum.splits)

lemma evaluate_loop_fields:
  assumes "evaluate_loop thresholds seeds = Inr evaluations"
  shows "map e_score evaluations = map (\<lambda>s. min 1 (s_score s + 0.1)) seeds"
    and "map e_tags evaluations = map s_tags seeds"
    and "map e_candidate_name evaluations = map s_name seeds"
  using assms
proof (induction seeds arbitrary: evaluations)
  case Nil
  {
    case 1 then show ?case by simp
  next
    case 2 then show ?case by simp
  next
    case 3 then show ?case by simp
  }
next
  case (Cons seed seeds)
  {
    case 1
    then show ?case
      using Cons.IH(1) by (auto simp: exc_bind_def evaluate_seed_fields split: sum.splits)
  next
    case 2
    then show ?case
      using Cons.IH(2) by (auto simp: exc_bind_def evaluate_seed_fields split: sum.splits)
  next
    case 3
    then show ?case
      using Cons.IH(3) by (auto simp: exc_bind_def evaluate_seed_fields split: sum.splits)
  }
qed

lemma base_profile_tags:
  "map p_tags BASE_PROFILES
     = [[''Data Deficient'', ''Manual Review Required''], [''High Confidence''],
        [''Manual Review Required''], [''Leadership Potential'']]"
  by (simp add: BASE_PROFILES_def)

text \<open>
  The campaign of \<^verbatim>\<open>tests/test_agents.py\<close>: default crew, the fixture job description,
  limit 4. The candidate ranked second has a higher final score than the one ranked
  first, and the one ranked fourth a higher one than the third.
\<close>

lemma fixture_campaign_ranking:
  "map r_name (fst (projr (fst (run_campaign stub_pylib (Some fixture_job_description) 4
      default_crew))))
     = [''Marina Byte'', ''Kai Ops'', ''Nia Vector'', ''Alex Dev'']
   \<and> map r_final_score (fst (projr (fst (run_campaign stub_pylib (Some fixture_job_description) 4
      default_crew))))
     = [0.8675, 0.8775, 0.7875, 0.7975]"
proof -
  define seeds where
    "seeds = research_loop stub_pylib fixture_job_description
       (real (length (content fixture_job_description)) / 400) BASE_PROFILES"
  have th: "bias_thresholds default_crew = [(''default'', 0.65)]"
    and pool: "candidate_pool default_crew = BASE_PROFILES"
    and pol: "policy default_crew = RankingPolicy_default"
    by (simp_all add: default_crew_def init_fields)
  have "map_of (bias_thresholds default_crew) ''default'' = Some 0.65"
    by (simp add: th)
  from evaluate_loop_default [OF this, of seeds]
  obtain evaluations where ev: "evaluate_loop (bias_thresholds default_crew) seeds = Inr evaluations"
    and len: "length evaluations = length seeds"
    by blast
  have "map s_score seeds = [0.6475, 0.7675, 0.7275, 0.6875]"
    unfolding seeds_def by (rule fixture_seed_scores)
  moreover have "map e_score evaluations = map (\<lambda>x. min 1 (x + 0.1)) (map s_score seeds)"
    by (simp add: evaluate_loop_fields(1) [OF ev] o_def)
  ultimately have scores: "map e_score evaluations = [0.7475, 0.8675, 0.8275, 0.7875]"
    by simp
  have tags: "map e_tags evaluations
      = [[''Data Deficient'', ''Manual Review Required''], [''High Confidence''],
         [''Manual Review Required''], [''Leadership Potential'']]"
    unfolding evaluate_loop_fields(2) [OF ev] seeds_def
    by (simp add: research_loop_map research_seed_def o_def base_profile_tags)
  have names: "map e_candidate_name evaluations
      = [''Alex Dev'', ''Marina Byte'', ''Kai Ops'', ''Nia Vector'']"
    unfolding evaluate_loop_fields(3) [OF ev] seeds_def
    by (simp add: seed_names base_profile_names)
  from scores obtain e1 e2 e3 e4 where evs: "evaluations = [e1, e2, e3, e4]"
    by (auto simp: map_eq_Cons_conv)
  from scores tags names evs
  have s: "e_score e1 = 0.7475" "e_score e2 = 0.8675" "e_score e3 = 0.8275" "e_score e4 = 0.7875"
    and t: "e_tags e1 = [''Data Deficient'', ''Manual Review Required'']"
      "e_tags e2 = [''High Confidence'']" "e_tags e3 = [''Manual Review Required'']"
      "e_tags e4 = [''Leadership Potential'']"
    and n: "e_candidate_name e1 = ''Alex Dev''" "e_candidate_name e2 = ''Marina Byte''"
      "e_candidate_name e3 = ''Kai Ops''" "e_candidate_name e4 = ''Nia Vector''"
    by simp_all
  have sorted: "sorted_evaluations evaluations = [e2, e3, e4, e1]"
    by (simp add: evs sorted_evaluations_def s)
  obtain risk where risk: "assess_risk evaluations = Inr risk"
    by (simp add: assess_risk_eq)
  have ev': "evaluate_loop (bias_thresholds default_crew)
      (research_loop stub_pylib fixture_job_description
         (real (length (content fixture_job_description)) / 400)
         (slice_to (candidate_pool default_crew) 4)) = Inr evaluations"
    using ev by (simp add: seeds_def pool base_profiles_4)
  have "fst (run_campaign stub_pylib (Some fixture_job_description) 4 default_crew)
      = Inr (rank_loop stub_pylib (policy default_crew) 1 (sorted_evaluations evaluations),
             evaluations)"
    using ev' _ risk by (rule run_campaign_success(1)) simp
  then have run: "fst (projr (fst (run_campaign stub_pylib (Some fixture_job_description) 4
        default_crew))) = rank_loop stub_pylib RankingPolicy_default 1 [e2, e3, e4, e1]"
    by (simp add: pol sorted)
  have "map r_name (rank_loop stub_pylib RankingPolicy_default 1 [e2, e3, e4, e1])
      = [''Marina Byte'', ''Kai Ops'', ''Nia Vector'', ''Alex Dev'']"
    by (simp only: rank_loop_names) (simp add: n)
  moreover have "map r_final_score (rank_loop stub_pylib RankingPolicy_default 1 [e2, e3, e4, e1])
      = [0.8675, 0.8775, 0.7875, 0.7975]"
    by (simp only: rank_loop_final_scores) (simp add: s t RankingPolicy_default_def)
  ultimately show ?thesis
    by (simp only: run)
qed

end
